theory Spec2Isabelle
  imports Main "HOL-Library.Word"
begin

section \<open>Values of the host language\<close>

text \<open>
  A JavaScript string is a sequence of UTF-16 code units: \<open>length\<close>, \<open>slice\<close> and
  \<open>replace\<close> of the source count and cut code units, so a string is a list of 16-bit
  words. \<open>ascii\<close> embeds the ASCII literals of the source; the emoji of the source are
  written out as their code units.
\<close>

type_synonym jsstring = "16 word list"

definition ascii :: "string \<Rightarrow> jsstring" where
  "ascii s = map of_char s"

definition LF :: "16 word" where
  "LF = 0x0A"

definition SP :: "16 word" where
  "SP = 0x20"

text \<open>\<open>Array.prototype.join\<close> on an array of strings.\<close>

fun join :: "jsstring \<Rightarrow> jsstring list \<Rightarrow> jsstring" where
  "join sep [] = []"
| "join sep [x] = x"
| "join sep (x # y # ys) = x @ sep @ join sep (y # ys)"

text \<open>The decimal rendering of a non-negative integer (an array or string length).\<close>

definition digit :: "nat \<Rightarrow> 16 word" where
  "digit d = 0x30 + of_nat d"

function decimal :: "nat \<Rightarrow> jsstring" where
  "decimal n = (if n < 10 then [digit n] else decimal (n div 10) @ [digit (n mod 10)])"
  by pat_completeness auto
termination
  by (relation "measure (\<lambda>n. n)") auto

text \<open>
  Surrogates, and the code points of a string as its iterator and \<open>JSON.stringify\<close>
  see them: a lead surrogate followed by a trail surrogate is one code point, every
  other code unit stands alone.
\<close>

definition is_lead :: "16 word \<Rightarrow> bool" where
  "is_lead c = (0xD800 \<le> c \<and> c \<le> 0xDBFF)"

definition is_trail :: "16 word \<Rightarrow> bool" where
  "is_trail c = (0xDC00 \<le> c \<and> c \<le> 0xDFFF)"

fun code_points :: "jsstring \<Rightarrow> jsstring list" where
  "code_points [] = []"
| "code_points [c] = [[c]]"
| "code_points (c # d # cs) =
     (if is_lead c \<and> is_trail d then [c, d] # code_points cs
      else [c] # code_points (d # cs))"

text \<open>
  The response of the search service is the value the client library parsed from JSON.
  A number is kept as its \<open>ToString\<close> rendering, which identifies a finite Number up
  to the sign of zero (both zeros render as \<open>0\<close>, are falsy and serialize alike).
  An object is the list of its own properties in enumeration order. A property that
  is absent reads as \<open>undefined\<close>: \<open>None\<close> in \<open>json option\<close>.
\<close>

datatype json =
    JNull
  | JBool bool
  | JNum jsstring
  | JStr jsstring
  | JArr "json list"
  | JObj "(jsstring \<times> json) list"

datatype js_error = TypeError | RangeError | ExaError jsstring

definition bind :: "js_error + 'a \<Rightarrow> ('a \<Rightarrow> js_error + 'b) \<Rightarrow> js_error + 'b" where
  "bind m f = (case m of Inl e \<Rightarrow> Inl e | Inr x \<Rightarrow> f x)"

text \<open>Truthiness (\<open>ToBoolean\<close>), as \<open>if (v)\<close> and \<open>v || d\<close> test it.\<close>

fun truthy :: "json option \<Rightarrow> bool" where
  "truthy None = False"
| "truthy (Some JNull) = False"
| "truthy (Some (JBool b)) = b"
| "truthy (Some (JNum r)) = (r \<noteq> ascii ''0'')"
| "truthy (Some (JStr s)) = (s \<noteq> [])"
| "truthy (Some (JArr xs)) = True"
| "truthy (Some (JObj kvs)) = True"

text \<open>
  Reading a property \<open>v.name\<close>, for the names the formatter reads (\<open>results\<close>,
  \<open>length\<close>, \<open>title\<close>, \<open>url\<close>, \<open>publishedDate\<close>, \<open>author\<close>, \<open>summary\<close>,
  \<open>text\<close>), none of which a built-in prototype defines: an object gives its own
  property, an array and a string give their \<open>length\<close>, \<open>null\<close> and \<open>undefined\<close>
  throw a TypeError, everything else reads as \<open>undefined\<close>.
\<close>

fun get_prop :: "json option \<Rightarrow> jsstring \<Rightarrow> js_error + json option" where
  "get_prop None name = Inl TypeError"
| "get_prop (Some JNull) name = Inl TypeError"
| "get_prop (Some (JObj kvs)) name = Inr (map_of kvs name)"
| "get_prop (Some (JArr xs)) name =
     Inr (if name = ascii ''length'' then Some (JNum (decimal (length xs))) else None)"
| "get_prop (Some (JStr s)) name =
     Inr (if name = ascii ''length'' then Some (JNum (decimal (length s))) else None)"
| "get_prop (Some (JBool b)) name = Inr None"
| "get_prop (Some (JNum r)) name = Inr None"

text \<open>
  \<open>ToString\<close>, as a template literal applies it to an interpolated value. An array
  joins its elements with commas, \<open>null\<close> elements rendering as the empty string; a
  plain object renders as \<open>[object Object]\<close>, unless an own property \<open>toString\<close>
  shadows the inherited method: the property of a parsed value is never callable,
  the inherited \<open>valueOf\<close> returns the object itself, and the conversion throws.
\<close>

fun ToString :: "json \<Rightarrow> js_error + jsstring"
  and ToString_elems :: "json list \<Rightarrow> js_error + jsstring list" where
  "ToString JNull = Inr (ascii ''null'')"
| "ToString (JBool b) = Inr (if b then ascii ''true'' else ascii ''false'')"
| "ToString (JNum r) = Inr r"
| "ToString (JStr s) = Inr s"
| "ToString (JArr xs) =
     (case ToString_elems xs of Inl e \<Rightarrow> Inl e | Inr ss \<Rightarrow> Inr (join (ascii '','') ss))"
| "ToString (JObj kvs) =
     (if ascii ''toString'' \<in> set (map fst kvs) then Inl TypeError
      else Inr (ascii ''[object Object]''))"
| "ToString_elems [] = Inr []"
| "ToString_elems (x # xs) =
     (case (if x = JNull then Inr [] else ToString x) of
        Inl e \<Rightarrow> Inl e
      | Inr s \<Rightarrow> (case ToString_elems xs of Inl e \<Rightarrow> Inl e | Inr ss \<Rightarrow> Inr (s # ss)))"

definition interpolate :: "json option \<Rightarrow> js_error + jsstring" where
  "interpolate v = (case v of None \<Rightarrow> Inr (ascii ''undefined'') | Some j \<Rightarrow> ToString j)"

text \<open>
  The values a \<open>for ... of\<close> loop visits: the elements of an array, the code points
  of a string; nothing else that parsed JSON can hold is iterable.
\<close>

fun iterate :: "json option \<Rightarrow> js_error + json list" where
  "iterate (Some (JArr xs)) = Inr xs"
| "iterate (Some (JStr s)) = Inr (map JStr (code_points s))"
| "iterate v = Inl TypeError"

section \<open>The environment of one run\<close>

text \<open>
  What the program reads from its host: the credential variable, the clock and the
  \<open>Date\<close> built-ins, whose results depend on the host's time zone and locale, and the
  engine's wording of the errors it throws itself.
  \<^item> \<open>now\<close> is the time value of \<open>new Date()\<close>, in milliseconds;
  \<^item> \<open>getDate t\<close> is the day of the month of \<open>t\<close> in the host's time zone;
  \<^item> \<open>setDate t d\<close> is the time value after \<open>setDate(d)\<close>, NaN when out of range;
  \<^item> \<open>toISOString t\<close> renders a finite time value;
  \<^item> \<open>toLocaleDateString p\<close> is \<open>new Date(p).toLocaleDateString()\<close> for a
    primitive \<open>p\<close>, in the host's locale and time zone.
\<close>

datatype number = NaN | Num int

record env =
  EXA_API_KEY :: "jsstring option"
  now :: int
  getDate :: "int \<Rightarrow> int"
  setDate :: "int \<Rightarrow> int \<Rightarrow> number"
  toISOString :: "int \<Rightarrow> jsstring"
  toLocaleDateString :: "json \<Rightarrow> jsstring"
  engineMessage :: "js_error \<Rightarrow> jsstring"

section \<open>\<open>JSON.stringify(value, null, 2)\<close>\<close>

definition hexdigit :: "nat \<Rightarrow> 16 word" where
  "hexdigit d = (if d < 10 then 0x30 + of_nat d else 0x61 + of_nat (d - 10))"

definition hex4 :: "16 word \<Rightarrow> jsstring" where
  "hex4 c = map hexdigit
     [unat c div 4096, unat c div 256 mod 16, unat c div 16 mod 16, unat c mod 16]"

text \<open>
  \<open>QuoteJSONString\<close>, code point by code point (0x5C is the backslash, 0x22 the
  double quote): the short escapes; a backslash, \<open>u\<close> and four lowercase hex digits
  for the other control characters and for a lone surrogate; every other code point
  as it is.
\<close>

definition quote_point :: "jsstring \<Rightarrow> jsstring" where
  "quote_point p =
     (case p of
        [c] \<Rightarrow>
          (if c = 0x08 then [0x5C] @ ascii ''b''
           else if c = 0x09 then [0x5C] @ ascii ''t''
           else if c = 0x0A then [0x5C] @ ascii ''n''
           else if c = 0x0C then [0x5C] @ ascii ''f''
           else if c = 0x0D then [0x5C] @ ascii ''r''
           else if c = 0x22 then [0x5C, 0x22]
           else if c = 0x5C then [0x5C, 0x5C]
           else if c < 0x20 \<or> is_lead c \<or> is_trail c then [0x5C] @ ascii ''u'' @ hex4 c
           else [c])
      | _ \<Rightarrow> p)"

definition quote :: "jsstring \<Rightarrow> jsstring" where
  "quote s = [0x22] @ concat (map quote_point (code_points s)) @ [0x22]"

definition gap :: jsstring where
  "gap = [SP, SP]"

text \<open>
  \<open>SerializeJSONProperty\<close> with its \<open>indent\<close>: a non-empty array or object opens a
  line per member at the deeper indentation and closes at the indentation it was
  entered with; an empty one is \<open>[]\<close> or \<open>{}\<close>.
\<close>

fun serialize :: "jsstring \<Rightarrow> json \<Rightarrow> jsstring" where
  "serialize indent JNull = ascii ''null''"
| "serialize indent (JBool b) = (if b then ascii ''true'' else ascii ''false'')"
| "serialize indent (JNum r) = r"
| "serialize indent (JStr s) = quote s"
| "serialize indent (JArr xs) =
     (if xs = [] then ascii ''[]''
      else ascii ''['' @ [LF] @ (indent @ gap)
           @ join (ascii '','' @ [LF] @ (indent @ gap)) (map (serialize (indent @ gap)) xs)
           @ [LF] @ indent @ ascii '']'')"
| "serialize indent (JObj kvs) =
     (if kvs = [] then ascii ''{}''
      else ascii ''{'' @ [LF] @ (indent @ gap)
           @ join (ascii '','' @ [LF] @ (indent @ gap))
               (map (\<lambda>(k, v). quote k @ ascii '': '' @ serialize (indent @ gap) v) kvs)
           @ [LF] @ indent @ ascii ''}'')"

definition JSON_stringify :: "json \<Rightarrow> jsstring" where
  "JSON_stringify v = serialize [] v"

section \<open>The result formatter\<close>

text \<open>The divider rule: the box-drawing character U+2500, repeated 60 times.\<close>

definition divider :: jsstring where
  "divider = replicate 60 0x2500"

text \<open>\<open>new Date(v).toLocaleDateString()\<close>: an object is converted to a primitive first.\<close>

definition locale_date :: "env \<Rightarrow> json \<Rightarrow> js_error + jsstring" where
  "locale_date env v =
     (case v of
        JArr xs \<Rightarrow> bind (ToString v) (\<lambda>s. Inr (toLocaleDateString env (JStr s)))
      | JObj kvs \<Rightarrow> bind (ToString v) (\<lambda>s. Inr (toLocaleDateString env (JStr s)))
      | _ \<Rightarrow> Inr (toLocaleDateString env v))"

text \<open>
  Lines 56 and 57: \<open>result.text.slice(0, 300)\<close> with every line feed replaced by a
  space, and the ellipsis after a text of more than 300 code units. Only a string has
  a callable \<open>slice\<close> whose result has a callable \<open>replace\<close>.
\<close>

definition preview :: "jsstring \<Rightarrow> jsstring" where
  "preview t = map (\<lambda>c. if c = LF then SP else c) (take 300 t)"

definition preview_line :: "json \<Rightarrow> js_error + jsstring" where
  "preview_line v =
     (case v of
        JStr t \<Rightarrow> Inr (preview t @ (if length t > 300 then ascii ''...'' else []))
      | _ \<Rightarrow> Inl TypeError)"

text \<open>
  The formatter pushes lines onto an array, statement by statement; a statement that
  throws ends the function. \<open>collect\<close> runs the statements in order and appends what
  they pushed, up to the first that throws.
\<close>

fun collect :: "(js_error + jsstring list) list \<Rightarrow> js_error + jsstring list" where
  "collect [] = Inr []"
| "collect (m # ms) =
     (case m of
        Inl e \<Rightarrow> Inl e
      | Inr ls \<Rightarrow> (case collect ms of Inl e \<Rightarrow> Inl e | Inr rest \<Rightarrow> Inr (ls @ rest)))"

text \<open>Line 42: the title line, with the literal fallback of a falsy title.\<close>

definition title_line :: "json \<Rightarrow> js_error + jsstring list" where
  "title_line result =
     bind (get_prop (Some result) (ascii ''title'')) (\<lambda>title.
     bind (interpolate (if truthy title then title else Some (JStr (ascii ''Untitled''))))
       (\<lambda>s. Inr [[0xD83D, 0xDCC4, SP] @ s]))"

text \<open>Line 43: the URL line.\<close>

definition url_line :: "json \<Rightarrow> js_error + jsstring list" where
  "url_line result =
     bind (get_prop (Some result) (ascii ''url'')) (\<lambda>url.
     bind (interpolate url) (\<lambda>s. Inr [[0xD83D, 0xDD17, SP] @ s]))"

text \<open>Lines 44 to 46: the date line.\<close>

definition date_lines :: "env \<Rightarrow> json \<Rightarrow> js_error + jsstring list" where
  "date_lines env result =
     bind (get_prop (Some result) (ascii ''publishedDate'')) (\<lambda>publishedDate.
     if truthy publishedDate
     then bind (locale_date env (the publishedDate)) (\<lambda>d. Inr [[0xD83D, 0xDCC5, SP] @ d])
     else Inr [])"

text \<open>Lines 47 to 49: the author line.\<close>

definition author_lines :: "json \<Rightarrow> js_error + jsstring list" where
  "author_lines result =
     bind (get_prop (Some result) (ascii ''author'')) (\<lambda>author.
     if truthy author
     then bind (interpolate author) (\<lambda>s. Inr [[0x270D, 0xFE0F, SP, SP] @ s])
     else Inr [])"

text \<open>Lines 50 to 53: the summary block.\<close>

definition summary_lines :: "json \<Rightarrow> js_error + jsstring list" where
  "summary_lines result =
     bind (get_prop (Some result) (ascii ''summary'')) (\<lambda>summary.
     if truthy summary
     then bind (interpolate summary) (\<lambda>s. Inr [[], [0xD83D, 0xDCDD, SP] @ s])
     else Inr [])"

text \<open>Lines 54 to 58: the body preview.\<close>

definition text_lines :: "json \<Rightarrow> js_error + jsstring list" where
  "text_lines result =
     bind (get_prop (Some result) (ascii ''text'')) (\<lambda>text.
     if truthy text then bind (preview_line (the text)) (\<lambda>p. Inr [[], p]) else Inr [])"

text \<open>The lines one result contributes: the body of the loop, lines 41 to 60.\<close>

definition item_lines :: "env \<Rightarrow> json \<Rightarrow> js_error + jsstring list" where
  "item_lines env result =
     collect
       [Inr [[]], title_line result, url_line result, date_lines env result,
        author_lines result, summary_lines result, text_lines result,
        Inr [[], divider]]"

text \<open>The header of line 37, around the count \<open>results.results?.length || 0\<close>.\<close>

definition header :: "jsstring \<Rightarrow> jsstring" where
  "header count =
     [LF, 0xD83D, 0xDD0D] @ ascii '' Found '' @ count @ ascii '' results'' @ [LF]"

definition count_text :: "json \<Rightarrow> js_error + jsstring" where
  "count_text results =
     bind (get_prop (Some results) (ascii ''results'')) (\<lambda>rs.
     bind (if rs = None \<or> rs = Some JNull then Inr None
           else get_prop rs (ascii ''length'')) (\<lambda>len.
     interpolate (if truthy len then len else Some (JNum (ascii ''0'')))))"

text \<open>The values the loop of line 40 visits: \<open>results.results || []\<close>.\<close>

definition result_items :: "json \<Rightarrow> js_error + json list" where
  "result_items results =
     bind (get_prop (Some results) (ascii ''results'')) (\<lambda>rs.
     iterate (if truthy rs then rs else Some (JArr [])))"

definition text_report :: "env \<Rightarrow> json \<Rightarrow> js_error + jsstring" where
  "text_report env results =
     bind (count_text results) (\<lambda>count.
     bind (result_items results) (\<lambda>items.
     bind (collect (map (item_lines env) items)) (\<lambda>blocks.
     Inr (join [LF] ([header count, divider] @ blocks)))))"

text \<open>\<open>formatResults(results, format = "text")\<close>.\<close>

definition formatResults :: "env \<Rightarrow> json \<Rightarrow> jsstring option \<Rightarrow> js_error + jsstring" where
  "formatResults env results format =
     (if (case format of None \<Rightarrow> ascii ''text'' | Some f \<Rightarrow> f) = ascii ''json''
      then Inr (JSON_stringify results)
      else text_report env results)"

text \<open>
  The same function as the statements it runs, for what it does to the objects in
  its reach. These are two: the object its parameter \<open>results\<close> refers to, and the
  local array \<open>lines\<close>. A frame holds both. A statement takes a frame to the frame
  after it, and to the error it threw if it threw one. An assignment to a property of
  the argument would be a statement that changes the first component; the function
  has none, and its statements are the three kinds below.
\<close>

record frame =
  argument :: json
  pushed :: "jsstring list"

type_synonym statement = "frame \<Rightarrow> js_error option \<times> frame"

text \<open>
  \<open>lines.push(e)\<close>, alone or under an \<open>if\<close>: the expressions are evaluated, which
  reads the argument, and what they yield is appended to \<open>lines\<close>.
\<close>

definition push :: "(json \<Rightarrow> js_error + jsstring list) \<Rightarrow> statement" where
  "push e f =
     (case e (argument f) of
        Inl x \<Rightarrow> (Some x, f)
      | Inr ls \<Rightarrow> (None, f\<lparr>pushed := pushed f @ ls\<rparr>))"

text \<open>Statements in a row: the first that throws ends the row.\<close>

fun sequence :: "statement list \<Rightarrow> statement" where
  "sequence [] f = (None, f)"
| "sequence (s # ss) f =
     (case s f of (Some x, f') \<Rightarrow> (Some x, f') | (None, f') \<Rightarrow> sequence ss f')"

text \<open>\<open>for (const result of e) body\<close>: the body runs once for each value of \<open>e\<close>.\<close>

definition for_of :: "(json \<Rightarrow> js_error + json list) \<Rightarrow> (json \<Rightarrow> statement) \<Rightarrow> statement" where
  "for_of e body f =
     (case e (argument f) of
        Inl x \<Rightarrow> (Some x, f)
      | Inr items \<Rightarrow> sequence (map body items) f)"

text \<open>Lines 41 to 59, the body of the loop.\<close>

definition loop_body :: "env \<Rightarrow> json \<Rightarrow> statement" where
  "loop_body env result =
     sequence
       [push (\<lambda>results. Inr [[]]),
        push (\<lambda>results. title_line result),
        push (\<lambda>results. url_line result),
        push (\<lambda>results. date_lines env result),
        push (\<lambda>results. author_lines result),
        push (\<lambda>results. summary_lines result),
        push (\<lambda>results. text_lines result),
        push (\<lambda>results. Inr [[], divider])]"

text \<open>
  The run of \<open>formatResults(results, format)\<close>: what it returns or throws, and the
  object \<open>results\<close> refers to when it ends. \<open>JSON.stringify\<close> reads its argument.
\<close>

definition run_formatResults ::
  "env \<Rightarrow> json \<Rightarrow> jsstring option \<Rightarrow> (js_error + jsstring) \<times> json" where
  "run_formatResults env results format =
     (if (case format of None \<Rightarrow> ascii ''text'' | Some f \<Rightarrow> f) = ascii ''json''
      then (Inr (JSON_stringify results), results)
      else (case sequence
                   [push (\<lambda>results. bind (count_text results) (\<lambda>count. Inr [header count])),
                    push (\<lambda>results. Inr [divider]),
                    for_of result_items (loop_body env)]
                   \<lparr>argument = results, pushed = []\<rparr> of
              (Some x, f) \<Rightarrow> (Inl x, argument f)
            | (None, f) \<Rightarrow> (Inr (join [LF] (pushed f)), argument f)))"

text \<open>
  A well-formed response, after the data model: an object whose result collection
  is absent or an array of result items; an item is an object whose \<open>url\<close> is a
  string and whose \<open>title\<close>, \<open>publishedDate\<close>, \<open>author\<close>, \<open>summary\<close> and \<open>text\<close>
  are each a string or absent (\<open>null\<close> counts as absent).
\<close>

definition optional_string :: "json option \<Rightarrow> bool" where
  "optional_string v =
     (case v of None \<Rightarrow> True | Some JNull \<Rightarrow> True | Some (JStr s) \<Rightarrow> True | _ \<Rightarrow> False)"

definition wf_item :: "json \<Rightarrow> bool" where
  "wf_item r =
     (case r of
        JObj kvs \<Rightarrow>
          (case map_of kvs (ascii ''url'') of Some (JStr u) \<Rightarrow> True | _ \<Rightarrow> False)
          \<and> optional_string (map_of kvs (ascii ''title''))
          \<and> optional_string (map_of kvs (ascii ''publishedDate''))
          \<and> optional_string (map_of kvs (ascii ''author''))
          \<and> optional_string (map_of kvs (ascii ''summary''))
          \<and> optional_string (map_of kvs (ascii ''text''))
      | _ \<Rightarrow> False)"

definition wf_response :: "json \<Rightarrow> bool" where
  "wf_response j =
     (case j of
        JObj kvs \<Rightarrow>
          (case map_of kvs (ascii ''results'') of
             None \<Rightarrow> True
           | Some JNull \<Rightarrow> True
           | Some (JArr xs) \<Rightarrow> list_all wf_item xs
           | _ \<Rightarrow> False)
      | _ \<Rightarrow> False)"

text \<open>Whether some result of a response carries a published date the formatter renders.\<close>

definition dated :: "json \<Rightarrow> bool" where
  "dated j =
     (case result_items j of
        Inl e \<Rightarrow> False
      | Inr items \<Rightarrow>
          list_ex (\<lambda>r. case get_prop (Some r) (ascii ''publishedDate'') of
                         Inl e \<Rightarrow> False | Inr v \<Rightarrow> truthy v) items)"

text \<open>
  The text report of a well-formed response, written out. A field of an item is
  shown when it holds a non-empty string; the items are those of the result
  collection, none when it is absent.
\<close>

definition shown :: "json \<Rightarrow> string \<Rightarrow> jsstring option" where
  "shown r name =
     (case r of
        JObj kvs \<Rightarrow>
          (case map_of kvs (ascii name) of
             Some (JStr s) \<Rightarrow> if s = [] then None else Some s
           | _ \<Rightarrow> None)
      | _ \<Rightarrow> None)"

text \<open>
  The block of one item: an empty line, the title line (\<open>Untitled\<close> when no title
  is shown), the URL line, then the date line, the author line, the summary block
  and the preview block, each only for a field that is shown, an empty line and the
  divider rule.
\<close>

definition written_block :: "env \<Rightarrow> json \<Rightarrow> jsstring list" where
  "written_block env r =
     [[],
      [0xD83D, 0xDCC4, 0x20]
        @ (case shown r ''title'' of None \<Rightarrow> ascii ''Untitled'' | Some s \<Rightarrow> s),
      [0xD83D, 0xDD17, 0x20] @ (case shown r ''url'' of None \<Rightarrow> [] | Some u \<Rightarrow> u)]
     @ (case shown r ''publishedDate'' of
          None \<Rightarrow> []
        | Some d \<Rightarrow> [[0xD83D, 0xDCC5, 0x20] @ toLocaleDateString env (JStr d)])
     @ (case shown r ''author'' of
          None \<Rightarrow> []
        | Some a \<Rightarrow> [[0x270D, 0xFE0F, 0x20, 0x20] @ a])
     @ (case shown r ''summary'' of
          None \<Rightarrow> []
        | Some s \<Rightarrow> [[], [0xD83D, 0xDCDD, 0x20] @ s])
     @ (case shown r ''text'' of
          None \<Rightarrow> []
        | Some t \<Rightarrow>
            [[], map (\<lambda>c. if c = 0x0A then 0x20 else c) (take 300 t)
                 @ (if 300 < length t then ascii ''...'' else [])])
     @ [[], replicate 60 0x2500]"

definition written_items :: "json \<Rightarrow> json list" where
  "written_items r =
     (case r of
        JObj kvs \<Rightarrow> (case map_of kvs (ascii ''results'') of Some (JArr xs) \<Rightarrow> xs | _ \<Rightarrow> [])
      | _ \<Rightarrow> [])"

text \<open>
  The report: the header with the number of items, the divider rule, and the blocks
  of the items in order, every line after the header on a line of its own.
\<close>

definition written_report :: "env \<Rightarrow> json \<Rightarrow> jsstring" where
  "written_report env r =
     [0x0A, 0xD83D, 0xDD0D] @ ascii '' Found '' @ decimal (length (written_items r))
     @ ascii '' results'' @ [0x0A, 0x0A] @ replicate 60 0x2500
     @ concat (map (\<lambda>l. 0x0A # l) (concat (map (written_block env) (written_items r))))"

section \<open>\<open>parseInt\<close> and the date floor\<close>

text \<open>
  The numbers the request builder computes with are integers or NaN. A Number is
  modelled by the integer it denotes: \<open>parseInt\<close> returns the mathematical value of
  the digits it read, which is the Number itself up to \<open>2 ^ 53\<close> (beyond, the
  engine rounds it to the nearest double); negative zero is identified with zero.
\<close>

definition is_white :: "16 word \<Rightarrow> bool" where
  "is_white c =
     (c \<in> set [0x09, 0x0A, 0x0B, 0x0C, 0x0D, 0x20, 0xA0, 0x1680, 0x2028, 0x2029,
               0x202F, 0x205F, 0x3000, 0xFEFF]
      \<or> (0x2000 \<le> c \<and> c \<le> 0x200A))"

definition is_digit :: "16 word \<Rightarrow> bool" where
  "is_digit c = (0x30 \<le> c \<and> c \<le> 0x39)"

definition digit_value :: "16 word \<Rightarrow> nat option" where
  "digit_value c =
     (if 0x30 \<le> c \<and> c \<le> 0x39 then Some (unat c - 0x30)
      else if 0x61 \<le> c \<and> c \<le> 0x7A then Some (unat c - 0x61 + 10)
      else if 0x41 \<le> c \<and> c \<le> 0x5A then Some (unat c - 0x41 + 10)
      else None)"

definition radix_digit :: "nat \<Rightarrow> 16 word \<Rightarrow> bool" where
  "radix_digit R c = (case digit_value c of None \<Rightarrow> False | Some d \<Rightarrow> d < R)"

definition mathInt :: "nat \<Rightarrow> jsstring \<Rightarrow> nat" where
  "mathInt R Z = foldl (\<lambda>acc c. acc * R + the (digit_value c)) 0 Z"

text \<open>
  \<open>parseInt(string)\<close> with no radix: leading white space is skipped, a sign is read,
  a prefix \<open>0x\<close> or \<open>0X\<close> selects radix 16, and the longest run of digits is the
  value; whatever follows is ignored, and no digit at all gives NaN.
\<close>

definition parseInt :: "jsstring \<Rightarrow> number" where
  "parseInt string =
     (let S = dropWhile is_white string;
          sign = (if S \<noteq> [] \<and> hd S = 0x2D then - 1 else 1);
          S1 = (if S \<noteq> [] \<and> (hd S = 0x2B \<or> hd S = 0x2D) then tl S else S);
          hex = (take 2 S1 = ascii ''0x'' \<or> take 2 S1 = ascii ''0X'');
          R = (if hex then 16 else 10);
          S2 = (if hex then drop 2 S1 else S1);
          Z = takeWhile (radix_digit R) S2
      in if Z = [] then NaN else Num (sign * int (mathInt R Z)))"

text \<open>
  The Numbers of the model that are the Numbers of the engine: NaN, and the integers
  up to \<open>2 ^ 53\<close> in absolute value, which a double holds exactly.
\<close>

definition exact :: "number \<Rightarrow> bool" where
  "exact v = (case v of NaN \<Rightarrow> True | Num i \<Rightarrow> \<bar>i\<bar> \<le> 2 ^ 53)"

text \<open>A numeral: a non-empty string of decimal digits, as \<open>decimal\<close> writes them.\<close>

definition numeral_string :: "jsstring \<Rightarrow> bool" where
  "numeral_string s = (s \<noteq> [] \<and> list_all is_digit s)"

definition minus_number :: "number \<Rightarrow> number \<Rightarrow> number" where
  "minus_number a b =
     (case a of NaN \<Rightarrow> NaN | Num x \<Rightarrow> (case b of NaN \<Rightarrow> NaN | Num y \<Rightarrow> Num (x - y)))"

text \<open>
  A \<open>Date\<close> object is its time value, a number. \<open>setDate\<close> with NaN makes the date
  invalid, and \<open>toISOString\<close> throws a RangeError on an invalid date.
\<close>

definition Date_getDate :: "env \<Rightarrow> number \<Rightarrow> number" where
  "Date_getDate env t = (case t of NaN \<Rightarrow> NaN | Num tv \<Rightarrow> Num (getDate env tv))"

definition Date_setDate :: "env \<Rightarrow> number \<Rightarrow> number \<Rightarrow> number" where
  "Date_setDate env t dt =
     (case t of NaN \<Rightarrow> NaN
      | Num tv \<Rightarrow> (case dt of NaN \<Rightarrow> NaN | Num d \<Rightarrow> setDate env tv d))"

definition Date_toISOString :: "env \<Rightarrow> number \<Rightarrow> js_error + jsstring" where
  "Date_toISOString env t = (case t of NaN \<Rightarrow> Inl RangeError | Num tv \<Rightarrow> Inr (toISOString env tv))"

text \<open>
  \<open>const date = new Date(); date.setDate(date.getDate() - parseInt(days));
  date.toISOString()\<close>: the date floor of \<open>search\<close>, \<open>research\<close> and \<open>news\<close>.
\<close>

definition days_ago :: "env \<Rightarrow> jsstring \<Rightarrow> number" where
  "days_ago env d =
     Date_setDate env (Num (now env))
       (minus_number (Date_getDate env (Num (now env))) (parseInt d))"

definition date_floor :: "env \<Rightarrow> jsstring \<Rightarrow> js_error + jsstring" where
  "date_floor env d = Date_toISOString env (days_ago env d)"

section \<open>The request builder\<close>

text \<open>
  \<open>SearchOptions\<close>, the options an action receives. A flag that was not given is
  \<open>undefined\<close>: \<open>None\<close>, and \<open>False\<close> for the two switches.
\<close>

record options =
  num :: "jsstring option"
  type' :: "jsstring option"
  contents :: bool
  summary :: bool
  days :: "jsstring option"
  domain :: "jsstring option"
  format :: "jsstring option"

text \<open>\<open>option || "default"\<close>: the default replaces \<open>undefined\<close> and the empty string.\<close>

definition or_default :: "jsstring option \<Rightarrow> jsstring \<Rightarrow> jsstring" where
  "or_default v d = (case v of None \<Rightarrow> d | Some s \<Rightarrow> if s = [] then d else s)"

definition given :: "jsstring option \<Rightarrow> bool" where
  "given v = (case v of None \<Rightarrow> False | Some s \<Rightarrow> s \<noteq> [])"

text \<open>
  The options object handed to the client library. A field the source does not set is
  absent: \<open>None\<close>, and \<open>False\<close> for \<open>text\<close> and \<open>summary\<close>, which are only ever set
  to \<open>true\<close>.
\<close>

record request =
  numResults :: "number option"
  req_type :: "jsstring option"
  startPublishedDate :: "jsstring option"
  includeDomains :: "jsstring list option"
  req_text :: bool
  req_summary :: bool

definition no_options :: request where
  "no_options =
     \<lparr>numResults = None, req_type = None, startPublishedDate = None,
      includeDomains = None, req_text = False, req_summary = False\<rparr>"

datatype api_call =
    Search jsstring request
  | SearchAndContents jsstring request
  | FindSimilar jsstring request
  | FindSimilarAndContents jsstring request
  | GetContents "jsstring list" request

text \<open>The options object of a call.\<close>

fun request_of :: "api_call \<Rightarrow> request" where
  "request_of (Search q r) = r"
| "request_of (SearchAndContents q r) = r"
| "request_of (FindSimilar u r) = r"
| "request_of (FindSimilarAndContents u r) = r"
| "request_of (GetContents us r) = r"

text \<open>\<open>search\<close>, lines 86 to 112.\<close>

definition search_options :: "env \<Rightarrow> options \<Rightarrow> js_error + request" where
  "search_options env options =
     bind (if given (days options)
           then bind (date_floor env (the (days options))) (\<lambda>iso. Inr (Some iso))
           else Inr None) (\<lambda>since.
     Inr (no_options
       \<lparr>numResults := Some (parseInt (or_default (num options) (ascii ''10''))),
        req_type := Some (or_default (type' options) (ascii ''auto'')),
        startPublishedDate := since,
        includeDomains :=
          (if given (domain options) then Some [the (domain options)] else None)\<rparr>))"

definition search_call :: "env \<Rightarrow> jsstring \<Rightarrow> options \<Rightarrow> js_error + api_call" where
  "search_call env query options =
     bind (search_options env options) (\<lambda>searchOptions.
     Inr (if contents options \<or> summary options
          then SearchAndContents query
                 (searchOptions\<lparr>req_text := contents options, req_summary := summary options\<rparr>)
          else Search query searchOptions))"

text \<open>\<open>similar\<close>, lines 132 to 142.\<close>

definition similar_call :: "jsstring \<Rightarrow> options \<Rightarrow> api_call" where
  "similar_call url options =
     (if contents options
      then FindSimilarAndContents url
             (no_options\<lparr>numResults := Some (parseInt (or_default (num options) (ascii ''10''))),
                         req_text := True\<rparr>)
      else FindSimilar url
             (no_options\<lparr>numResults := Some (parseInt (or_default (num options) (ascii ''10'')))\<rparr>))"

text \<open>\<open>contents\<close>, lines 160 to 163.\<close>

definition contents_call :: "jsstring list \<Rightarrow> options \<Rightarrow> api_call" where
  "contents_call urls options =
     GetContents urls (no_options\<lparr>req_text := True, req_summary := summary options\<rparr>)"

text \<open>\<open>research\<close>, lines 184 to 197.\<close>

definition research_call :: "env \<Rightarrow> jsstring \<Rightarrow> options \<Rightarrow> js_error + api_call" where
  "research_call env topic options =
     bind (if given (days options)
           then bind (date_floor env (the (days options))) (\<lambda>iso. Inr (Some iso))
           else Inr None) (\<lambda>since.
     Inr (SearchAndContents topic
       (no_options
         \<lparr>numResults := Some (parseInt (or_default (num options) (ascii ''5''))),
          req_type := Some (ascii ''neural''),
          startPublishedDate := since,
          req_text := True,
          req_summary := True\<rparr>)))"

text \<open>\<open>news\<close>, lines 218 to 226.\<close>

definition news_call :: "env \<Rightarrow> jsstring \<Rightarrow> options \<Rightarrow> js_error + api_call" where
  "news_call env topic options =
     (let date = days_ago env (or_default (days options) (ascii ''7''));
          n = parseInt (or_default (num options) (ascii ''10''))
      in bind (Date_toISOString env date) (\<lambda>iso.
         Inr (SearchAndContents topic
           (no_options
             \<lparr>numResults := Some n,
              req_type := Some (ascii ''neural''),
              startPublishedDate := Some iso,
              req_summary := True\<rparr>))))"

text \<open>\<open>papers\<close>, lines 247 to 252.\<close>

definition academic_domains :: "jsstring list" where
  "academic_domains =
     [ascii ''arxiv.org'', ascii ''scholar.google.com'', ascii ''semanticscholar.org'',
      ascii ''papers.ssrn.com'', ascii ''researchgate.net'']"

definition papers_call :: "jsstring \<Rightarrow> options \<Rightarrow> api_call" where
  "papers_call topic options =
     SearchAndContents topic
       (no_options
         \<lparr>numResults := Some (parseInt (or_default (num options) (ascii ''10''))),
          req_type := Some (ascii ''neural''),
          includeDomains := Some academic_domains,
          req_summary := True\<rparr>)"

section \<open>The six actions\<close>

text \<open>
  What one run leaves behind: the strings passed to \<open>console.log\<close> (standard output)
  and to \<open>console.error\<close> (the error stream), in order, the calls issued to the search
  service, and the exit code. The service is a function from the call to its result:
  the message of the error it rejects with, or the response.
\<close>

record outcome =
  stdout :: "jsstring list"
  stderr :: "jsstring list"
  calls :: "api_call list"
  exit_code :: nat

type_synonym service = "api_call \<Rightarrow> jsstring + json"

text \<open>\<open>getClient\<close>: a missing or empty credential is reported and ends the process.\<close>

definition has_key :: "env \<Rightarrow> bool" where
  "has_key env = given (EXA_API_KEY env)"

definition no_key :: outcome where
  "no_key =
     \<lparr>stdout = [],
      stderr = [[0x274C] @ ascii '' EXA_API_KEY environment variable not set''],
      calls = [], exit_code = 1\<rparr>"

text \<open>
  The \<open>catch\<close> block: \<open>console.error("...Error:", error.message); process.exit(1)\<close>.
  The message of an error the service rejected with is its own; the engine words
  the errors it throws itself.
\<close>

definition message :: "env \<Rightarrow> js_error \<Rightarrow> jsstring" where
  "message env e = (case e of ExaError m \<Rightarrow> m | _ \<Rightarrow> engineMessage env e)"

definition caught :: "env \<Rightarrow> jsstring list \<Rightarrow> api_call list \<Rightarrow> js_error \<Rightarrow> outcome" where
  "caught env printed issued e =
     \<lparr>stdout = printed,
      stderr = [[0x274C] @ ascii '' Error: '' @ message env e],
      calls = issued, exit_code = 1\<rparr>"

text \<open>
  The \<open>try\<close> block the six actions share, after what they printed first and with the
  call they built: the call is awaited, its response formatted and the report logged;
  an error thrown at any point is caught.
\<close>

definition attempt ::
  "env \<Rightarrow> service \<Rightarrow> jsstring list \<Rightarrow> js_error + api_call \<Rightarrow> jsstring option \<Rightarrow> outcome" where
  "attempt env exa printed built fmt =
     (case built of
        Inl e \<Rightarrow> caught env printed [] e
      | Inr c \<Rightarrow>
          (case exa c of
             Inl m \<Rightarrow> caught env printed [c] (ExaError m)
           | Inr results \<Rightarrow>
               (case formatResults env results fmt of
                  Inl e \<Rightarrow> caught env printed [c] e
                | Inr report \<Rightarrow>
                    \<lparr>stdout = printed @ [report], stderr = [], calls = [c],
                     exit_code = 0\<rparr>)))"

definition search_action :: "env \<Rightarrow> service \<Rightarrow> jsstring \<Rightarrow> options \<Rightarrow> outcome" where
  "search_action env exa query options =
     (if \<not> has_key env then no_key
      else attempt env exa [] (search_call env query options) (format options))"

definition similar_action :: "env \<Rightarrow> service \<Rightarrow> jsstring \<Rightarrow> options \<Rightarrow> outcome" where
  "similar_action env exa url options =
     (if \<not> has_key env then no_key
      else attempt env exa [] (Inr (similar_call url options)) (format options))"

definition contents_action :: "env \<Rightarrow> service \<Rightarrow> jsstring list \<Rightarrow> options \<Rightarrow> outcome" where
  "contents_action env exa urls options =
     (if \<not> has_key env then no_key
      else attempt env exa [] (Inr (contents_call urls options)) (format options))"

definition research_banner :: "jsstring \<Rightarrow> jsstring" where
  "research_banner topic =
     [0xD83D, 0xDD2C] @ ascii '' Researching: '' @ topic @ ascii ''...'' @ [LF]"

definition research_action :: "env \<Rightarrow> service \<Rightarrow> jsstring \<Rightarrow> options \<Rightarrow> outcome" where
  "research_action env exa topic options =
     (if \<not> has_key env then no_key
      else attempt env exa [research_banner topic] (research_call env topic options)
             (format options))"

definition news_banner :: "jsstring \<Rightarrow> jsstring" where
  "news_banner topic =
     [0xD83D, 0xDCF0] @ ascii '' Searching news: '' @ topic @ ascii ''...'' @ [LF]"

definition news_action :: "env \<Rightarrow> service \<Rightarrow> jsstring \<Rightarrow> options \<Rightarrow> outcome" where
  "news_action env exa topic options =
     (if \<not> has_key env then no_key
      else attempt env exa [news_banner topic] (news_call env topic options)
             (format options))"

definition papers_banner :: "jsstring \<Rightarrow> jsstring" where
  "papers_banner topic =
     [0xD83D, 0xDCDA] @ ascii '' Searching papers: '' @ topic @ ascii ''...'' @ [LF]"

definition papers_action :: "env \<Rightarrow> service \<Rightarrow> jsstring \<Rightarrow> options \<Rightarrow> outcome" where
  "papers_action env exa topic options =
     (if \<not> has_key env then no_key
      else attempt env exa [papers_banner topic] (Inr (papers_call topic options))
             (format options))"

text \<open>
  The defaults the command declarations give the options (the third argument of
  \<open>.option\<close>): what a command line that leaves a flag out hands to the action.
\<close>

definition dflt :: "jsstring option \<Rightarrow> jsstring \<Rightarrow> jsstring option" where
  "dflt v d = (case v of None \<Rightarrow> Some d | Some s \<Rightarrow> Some s)"

definition search_defaults :: "options \<Rightarrow> options" where
  "search_defaults flags =
     flags\<lparr>num := dflt (num flags) (ascii ''10''), type' := dflt (type' flags) (ascii ''auto''),
           format := dflt (format flags) (ascii ''text'')\<rparr>"

definition similar_defaults :: "options \<Rightarrow> options" where
  "similar_defaults flags =
     flags\<lparr>num := dflt (num flags) (ascii ''10''), format := dflt (format flags) (ascii ''text'')\<rparr>"

definition contents_defaults :: "options \<Rightarrow> options" where
  "contents_defaults flags = flags\<lparr>format := dflt (format flags) (ascii ''text'')\<rparr>"

definition research_defaults :: "options \<Rightarrow> options" where
  "research_defaults flags =
     flags\<lparr>num := dflt (num flags) (ascii ''5''), format := dflt (format flags) (ascii ''text'')\<rparr>"

definition news_defaults :: "options \<Rightarrow> options" where
  "news_defaults flags =
     flags\<lparr>num := dflt (num flags) (ascii ''10''), days := dflt (days flags) (ascii ''7''),
           format := dflt (format flags) (ascii ''text'')\<rparr>"

definition papers_defaults :: "options \<Rightarrow> options" where
  "papers_defaults flags =
     flags\<lparr>num := dflt (num flags) (ascii ''10''), format := dflt (format flags) (ascii ''text'')\<rparr>"

section \<open>Two hosts and two services for the examples\<close>

text \<open>
  The examples below run on a host whose time zone is UTC. Its calendar is the
  proleptic Gregorian one of the language: days are counted from 1970-01-01.
\<close>

definition msPerDay :: int where
  "msPerDay = 86400000"

definition days_from_civil :: "int \<Rightarrow> int \<Rightarrow> int \<Rightarrow> int" where
  "days_from_civil y m d =
     (let y1 = (if m \<le> 2 then y - 1 else y);
          era = y1 div 400;
          yoe = y1 - era * 400;
          doy = (153 * (if m > 2 then m - 3 else m + 9) + 2) div 5 + d - 1;
          doe = yoe * 365 + yoe div 4 - yoe div 100 + doy
      in era * 146097 + doe - 719468)"

definition civil_from_days :: "int \<Rightarrow> int \<times> int \<times> int" where
  "civil_from_days z =
     (let z1 = z + 719468;
          era = z1 div 146097;
          doe = z1 - era * 146097;
          yoe = (doe - doe div 1460 + doe div 36524 - doe div 146096) div 365;
          doy = doe - (365 * yoe + yoe div 4 - yoe div 100);
          mp = (5 * doy + 2) div 153;
          d = doy - (153 * mp + 2) div 5 + 1;
          m = (if mp < 10 then mp + 3 else mp - 9)
      in (yoe + era * 400 + (if m \<le> 2 then 1 else 0), m, d))"

definition utc_getDate :: "int \<Rightarrow> int" where
  "utc_getDate t = snd (snd (civil_from_days (t div msPerDay)))"

text \<open>
  \<open>setDate(d)\<close> keeps the year, the month and the time within the day, and counts the
  day from the first of the month; a result beyond the range of time values is NaN.
\<close>

definition utc_setDate :: "int \<Rightarrow> int \<Rightarrow> number" where
  "utc_setDate t d =
     (let (y, m, old) = civil_from_days (t div msPerDay);
          tv = (days_from_civil y m 1 + d - 1) * msPerDay + t mod msPerDay
      in if \<bar>tv\<bar> \<le> 8640000000000000 then Num tv else NaN)"

definition pad :: "nat \<Rightarrow> int \<Rightarrow> jsstring" where
  "pad w n = replicate (w - length (decimal (nat n))) 0x30 @ decimal (nat n)"

definition utc_toISOString :: "int \<Rightarrow> jsstring" where
  "utc_toISOString t =
     (let (y, m, d) = civil_from_days (t div msPerDay);
          ms = t mod msPerDay;
          year = (if 0 \<le> y \<and> y \<le> 9999 then pad 4 y
                  else (if y < 0 then ascii ''-'' else ascii ''+'') @ pad 6 \<bar>y\<bar>)
      in year @ ascii ''-'' @ pad 2 m @ ascii ''-'' @ pad 2 d @ ascii ''T''
         @ pad 2 (ms div 3600000) @ ascii '':'' @ pad 2 (ms div 60000 mod 60) @ ascii '':''
         @ pad 2 (ms div 1000 mod 60) @ ascii ''.'' @ pad 3 (ms mod 1000) @ ascii ''Z'')"

text \<open>
  The date of a published-date string in the format of \<open>toISOString\<close>, which is the
  one the examples use: year, month and day of \<open>YYYY-MM-DDTHH:mm:ss.sssZ\<close>. The two
  hosts render that date as their locale does, \<open>en-US\<close> as month/day/year and
  \<open>de-DE\<close> as day.month.year, and anything they do not read as \<open>Invalid Date\<close>.
\<close>

definition field :: "jsstring \<Rightarrow> nat \<Rightarrow> nat \<Rightarrow> nat" where
  "field s i n = mathInt 10 (take n (drop i s))"

definition iso_date :: "jsstring \<Rightarrow> (nat \<times> nat \<times> nat) option" where
  "iso_date s =
     (if length s = 24
         \<and> map (\<lambda>i. s ! i) [4, 7, 10, 13, 16, 19, 23] = ascii ''--T::.Z''
         \<and> list_all (\<lambda>i. is_digit (s ! i))
              [0, 1, 2, 3, 5, 6, 8, 9, 11, 12, 14, 15, 17, 18, 20, 21, 22]
         \<and> 1 \<le> field s 5 2 \<and> field s 5 2 \<le> 12 \<and> 1 \<le> field s 8 2
         \<and> days_from_civil (int (field s 0 4)) (int (field s 5 2)) (int (field s 8 2))
             < days_from_civil (int (field s 0 4)) (int (field s 5 2) + 1) 1
         \<and> field s 11 2 \<le> 23 \<and> field s 14 2 \<le> 59 \<and> field s 17 2 \<le> 59
      then Some (field s 0 4, field s 5 2, field s 8 2)
      else None)"

definition en_US_date :: "json \<Rightarrow> jsstring" where
  "en_US_date p =
     (case p of
        JStr s \<Rightarrow>
          (case iso_date s of
             Some (y, m, d) \<Rightarrow> decimal m @ ascii ''/'' @ decimal d @ ascii ''/'' @ decimal y
           | None \<Rightarrow> ascii ''Invalid Date'')
      | _ \<Rightarrow> ascii ''Invalid Date'')"

definition de_DE_date :: "json \<Rightarrow> jsstring" where
  "de_DE_date p =
     (case p of
        JStr s \<Rightarrow>
          (case iso_date s of
             Some (y, m, d) \<Rightarrow> decimal d @ ascii ''.'' @ decimal m @ ascii ''.'' @ decimal y
           | None \<Rightarrow> ascii ''Invalid Date'')
      | _ \<Rightarrow> ascii ''Invalid Date'')"

definition engine_wording :: "js_error \<Rightarrow> jsstring" where
  "engine_wording e =
     (case e of
        RangeError \<Rightarrow> ascii ''Invalid time value''
      | TypeError \<Rightarrow> ascii ''not an object or not a function''
      | ExaError m \<Rightarrow> m)"

text \<open>The clock of both hosts reads 2024-01-03T10:20:30.000Z.\<close>

definition host_en_US :: env where
  "host_en_US =
     \<lparr>EXA_API_KEY = Some (ascii ''secret''), now = 1704277230000,
      getDate = utc_getDate, setDate = utc_setDate, toISOString = utc_toISOString,
      toLocaleDateString = en_US_date, engineMessage = engine_wording\<rparr>"

definition host_de_DE :: env where
  "host_de_DE = host_en_US\<lparr>toLocaleDateString := de_DE_date\<rparr>"

text \<open>A service that finds nothing, and one that rejects every call.\<close>

definition finds_nothing :: service where
  "finds_nothing c = Inr (JObj [(ascii ''results'', JArr [])])"

definition rejects :: service where
  "rejects c = Inl (ascii ''Request failed with status code 401'')"

text \<open>A command line with no flag at all, and three responses.\<close>

definition no_flags :: options where
  "no_flags =
     \<lparr>num = None, type' = None, contents = False, summary = False, days = None,
      domain = None, format = None\<rparr>"

definition bare_item :: json where
  "bare_item = JObj [(ascii ''url'', JStr (ascii ''https://example.com/a''))]"

definition dated_item :: json where
  "dated_item =
     JObj [(ascii ''title'', JStr (ascii ''Example'')),
           (ascii ''url'', JStr (ascii ''https://example.com/b'')),
           (ascii ''publishedDate'', JStr (ascii ''2024-01-15T00:00:00.000Z''))]"

definition plain_response :: json where
  "plain_response = JObj [(ascii ''results'', JArr [bare_item])]"

definition dated_response :: json where
  "dated_response = JObj [(ascii ''results'', JArr [dated_item])]"

section \<open>\<open>JSON.parse\<close>\<close>

text \<open>
  The reader of the JSON grammar, as far as the round trip of the formatter's JSON
  output needs it: white space, the three literals, numbers, strings with their
  escapes, arrays and objects. \<open>None\<close> is the SyntaxError.
\<close>

definition is_ws :: "16 word \<Rightarrow> bool" where
  "is_ws c = (c = 0x20 \<or> c = 0x09 \<or> c = 0x0A \<or> c = 0x0D)"

definition skip_ws :: "jsstring \<Rightarrow> jsstring" where
  "skip_ws s = dropWhile is_ws s"

text \<open>
  The length of the number at the start of a text: an optional minus sign, an
  integer part that is \<open>0\<close> or starts with a digit from 1 to 9, an optional
  fraction (a point and at least one digit) and an optional exponent (\<open>e\<close> or
  \<open>E\<close>, an optional sign and at least one digit).
\<close>

definition sign_len :: "jsstring \<Rightarrow> nat" where
  "sign_len s = (case s of [] \<Rightarrow> 0 | c # cs \<Rightarrow> if c = 0x2D then 1 else 0)"

definition int_len :: "jsstring \<Rightarrow> nat option" where
  "int_len s =
     (case s of
        [] \<Rightarrow> None
      | c # cs \<Rightarrow>
          if c = 0x30 then Some 1
          else if is_digit c then Some (1 + length (takeWhile is_digit cs))
          else None)"

definition frac_len :: "jsstring \<Rightarrow> nat" where
  "frac_len s =
     (case s of
        [] \<Rightarrow> 0
      | p # ds \<Rightarrow>
          if p = 0x2E \<and> takeWhile is_digit ds \<noteq> [] then 1 + length (takeWhile is_digit ds)
          else 0)"

definition exp_len :: "jsstring \<Rightarrow> nat" where
  "exp_len s =
     (case s of
        [] \<Rightarrow> 0
      | e # cs \<Rightarrow>
          if e = 0x65 \<or> e = 0x45 then
            (let k = (case cs of [] \<Rightarrow> 0 | c # r \<Rightarrow> if c = 0x2B \<or> c = 0x2D then 1 else 0);
                 ds = takeWhile is_digit (drop k cs)
             in if ds = [] then 0 else 1 + k + length ds)
          else 0)"

definition number_len :: "jsstring \<Rightarrow> nat option" where
  "number_len s =
     (let a = sign_len s in
      case int_len (drop a s) of
        None \<Rightarrow> None
      | Some b \<Rightarrow>
          (let c = frac_len (drop (a + b) s);
               d = exp_len (drop (a + b + c) s)
           in Some (a + b + c + d)))"





text \<open>
  The own properties of an object enumerate with the array indices first, in
  ascending order, and the other names after them in the order they were created;
  defining a property that exists replaces its value where it stands. An array index
  is the decimal numeral of an integer below \<open>2 ^ 32 - 1\<close>.
\<close>

definition array_index :: "jsstring \<Rightarrow> nat option" where
  "array_index k =
     (if numeral_string k \<and> decimal (mathInt 10 k) = k \<and> mathInt 10 k < 4294967295
      then Some (mathInt 10 k) else None)"








text \<open>
  The values a response can be: what the engine builds from JSON. A number is the
  rendering of a Number, which is a number of the grammar that reads back as itself;
  the names of an object are distinct and stand in enumeration order.
\<close>

fun ordered_keys :: "jsstring list \<Rightarrow> bool" where
  "ordered_keys [] = True"
| "ordered_keys [k] = True"
| "ordered_keys (k # k' # ks) =
     ((case array_index k of
         None \<Rightarrow> array_index k' = None
       | Some n \<Rightarrow> (case array_index k' of None \<Rightarrow> True | Some m \<Rightarrow> n < m))
      \<and> ordered_keys (k' # ks))"

fun js_value :: "(jsstring \<Rightarrow> jsstring) \<Rightarrow> json \<Rightarrow> bool" where
  "js_value canon JNull = True"
| "js_value canon (JBool b) = True"
| "js_value canon (JNum r) = (number_len r = Some (length r) \<and> canon r = r)"
| "js_value canon (JStr s) = True"
| "js_value canon (JArr xs) = list_all (js_value canon) xs"
| "js_value canon (JObj kvs) =
     (distinct (map fst kvs) \<and> ordered_keys (map fst kvs)
      \<and> list_all (\<lambda>kv. js_value canon (snd kv)) kvs)"






text \<open>What a serialized value starts with.\<close>

definition value_start :: "16 word \<Rightarrow> bool" where
  "value_start c = (\<not> is_ws c \<and> c \<noteq> 0x5D \<and> c \<noteq> 0x7D \<and> c \<noteq> 0x2C)"

section \<open>Basic facts\<close>

declare decimal.simps [simp del]

lemma bind_Inr [simp]: "bind (Inr x) f = f x"
  by (simp add: bind_def)

lemma bind_Inl [simp]: "bind (Inl e) f = Inl e"
  by (simp add: bind_def)

lemma bind_eq_Inr: "(bind m f = Inr y) = (\<exists>x. m = Inr x \<and> f x = Inr y)"
  by (cases m) simp_all

lemma decimal_digit: "n < 10 \<Longrightarrow> decimal n = [digit n]"
  by (simp add: decimal.simps)

lemma decimal_0: "decimal 0 = ascii ''0''"
  by (simp add: decimal_digit digit_def ascii_def)

lemma collect_Cons:
  "collect (m # ms) = bind m (\<lambda>ls. bind (collect ms) (\<lambda>rest. Inr (ls @ rest)))"
  by (simp add: bind_def)

declare collect.simps(2) [simp del]

lemma collect_Inr [simp]:
  "collect (Inr ls # ms) = bind (collect ms) (\<lambda>rest. Inr (ls @ rest))"
  by (simp add: collect_Cons)

lemma collect_Inl [simp]: "collect (Inl e # ms) = Inl e"
  by (simp add: collect_Cons)

lemma collect_eq_Inr_map:
  "(\<exists>ls. collect (map f xs) = Inr ls) = list_all (\<lambda>x. \<exists>ls. f x = Inr ls) xs"
  by (induction xs) (auto simp add: collect_Cons bind_eq_Inr)

lemma collect_map_cong:
  "(\<And>x. x \<in> set xs \<Longrightarrow> f x = g x) \<Longrightarrow> collect (map f xs) = collect (map g xs)"
  by (induction xs) (simp_all add: collect_Cons)


section \<open>The text report, line by line\<close>

lemma join_lines: "join s (x # xs) = x @ concat (map (\<lambda>l. s @ l) xs)"
  by (induction xs arbitrary: x) simp_all

lemma count_text_array:
  assumes "get_prop (Some results) (ascii ''results'') = Inr (Some (JArr items))"
  shows "count_text results = Inr (decimal (length items))"
  by (simp add: count_text_def assms interpolate_def)

lemma result_items_array:
  assumes "get_prop (Some results) (ascii ''results'') = Inr (Some (JArr items))"
  shows "result_items results = Inr items"
  by (simp add: result_items_def assms)

lemma text_mode:
  assumes "fmt \<noteq> Some (ascii ''json'')"
  shows "formatResults env results fmt = text_report env results"
  using assms by (cases fmt) (simp_all add: formatResults_def ascii_def)

lemma report_lines:
  "join [LF] ([header count, divider] @ blocks)
   = [0x0A, 0xD83D, 0xDD0D] @ ascii '' Found '' @ count @ ascii '' results''
     @ [0x0A, 0x0A] @ replicate 60 0x2500 @ concat (map (\<lambda>l. 0x0A # l) blocks)"
  by (simp add: join_lines header_def divider_def LF_def)

lemma text_report_array:
  assumes "fmt \<noteq> Some (ascii ''json'')"
      and "get_prop (Some results) (ascii ''results'') = Inr (Some (JArr items))"
  shows "formatResults env results fmt
         = bind (collect (map (item_lines env) items)) (\<lambda>blocks.
             Inr ([0x0A, 0xD83D, 0xDD0D] @ ascii '' Found '' @ decimal (length items)
                  @ ascii '' results'' @ [0x0A, 0x0A] @ replicate 60 0x2500
                  @ concat (map (\<lambda>l. 0x0A # l) blocks)))"
  unfolding text_mode [OF assms(1)] text_report_def count_text_array [OF assms(2)]
    result_items_array [OF assms(2)] report_lines
  by simp

lemma collect_append:
  "collect (ms @ ns) = bind (collect ms) (\<lambda>a. bind (collect ns) (\<lambda>b. Inr (a @ b)))"
proof (induction ms)
  case Nil
  then show ?case by (cases "collect ns") simp_all
next
  case (Cons m ms)
  then show ?case
    by (cases m; cases "collect ms"; cases "collect ns") (simp_all add: collect_Cons)
qed


lemma item_in_report:
  assumes "fmt \<noteq> Some (ascii ''json'')"
      and "get_prop (Some results) (ascii ''results'') = Inr (Some (JArr (xs @ [r] @ ys)))"
      and "formatResults env results fmt = Inr out"
  shows "\<exists>pre post block. item_lines env r = Inr block
           \<and> out = pre @ concat (map (\<lambda>l. 0x0A # l) block) @ post"
proof -
  from assms(3) obtain blocks where
    c: "collect (map (item_lines env) (xs @ [r] @ ys)) = Inr blocks"
    and out: "out = [0x0A, 0xD83D, 0xDD0D] @ ascii '' Found ''
        @ decimal (length (xs @ [r] @ ys)) @ ascii '' results'' @ [0x0A, 0x0A]
        @ replicate 60 0x2500 @ concat (map (\<lambda>l. 0x0A # l) blocks)"
    unfolding text_report_array [OF assms(1,2)] by (auto simp add: bind_eq_Inr)
  from c obtain a b d where b: "item_lines env r = Inr b" "blocks = a @ b @ d"
    by (auto simp add: collect_append collect_Cons bind_eq_Inr)
  from b out have "out = ([0x0A, 0xD83D, 0xDD0D] @ ascii '' Found ''
        @ decimal (length (xs @ [r] @ ys)) @ ascii '' results'' @ [0x0A, 0x0A]
        @ replicate 60 0x2500 @ concat (map (\<lambda>l. 0x0A # l) a))
      @ concat (map (\<lambda>l. 0x0A # l) b) @ concat (map (\<lambda>l. 0x0A # l) d)"
    by simp
  with b(1) show ?thesis by blast
qed

lemma item_lines_end:
  assumes "item_lines env r = Inr ls" and "text_lines r = Inr tls"
  shows "\<exists>pre. ls = pre @ tls @ [[], divider]"
  using assms by (auto simp add: item_lines_def collect_Cons bind_eq_Inr)




lemma no_items_report:
  assumes "fmt \<noteq> Some (ascii ''json'')"
      and "get_prop (Some results) (ascii ''results'') = Inr rs"
      and "\<not> truthy rs \<or> rs = Some (JArr [])"
  shows "formatResults env results fmt = Inr (join [LF] [header (ascii ''0''), divider])"
proof -
  have count: "count_text results = Inr (ascii ''0'')"
    using assms(3)
    by (cases rs rule: truthy.cases)
      (simp_all add: count_text_def assms(2) interpolate_def decimal_0)
  have items: "result_items results = Inr []"
    using assms(3) by (auto simp add: result_items_def assms(2))
  show ?thesis
    unfolding text_mode [OF assms(1)] by (simp add: text_report_def count items)
qed

lemma interpolate_optional:
  "optional_string v \<Longrightarrow> \<exists>s. interpolate v = Inr s"
  by (auto simp add: optional_string_def interpolate_def split: option.splits json.splits)

lemma truthy_optional:
  "optional_string v \<Longrightarrow> truthy v \<Longrightarrow> \<exists>s. v = Some (JStr s)"
  by (auto simp add: optional_string_def split: option.splits json.splits)

lemma wf_item_cases:
  assumes "wf_item r"
  obtains kvs u where "r = JObj kvs" and "map_of kvs (ascii ''url'') = Some (JStr u)"
    and "optional_string (map_of kvs (ascii ''title''))"
    and "optional_string (map_of kvs (ascii ''publishedDate''))"
    and "optional_string (map_of kvs (ascii ''author''))"
    and "optional_string (map_of kvs (ascii ''summary''))"
    and "optional_string (map_of kvs (ascii ''text''))"
proof (cases r)
  case (JObj kvs)
  with assms have url: "case map_of kvs (ascii ''url'') of Some (JStr u) \<Rightarrow> True | _ \<Rightarrow> False"
    and opt: "optional_string (map_of kvs (ascii ''title''))"
      "optional_string (map_of kvs (ascii ''publishedDate''))"
      "optional_string (map_of kvs (ascii ''author''))"
      "optional_string (map_of kvs (ascii ''summary''))"
      "optional_string (map_of kvs (ascii ''text''))"
    by (simp_all add: wf_item_def)
  from url obtain u where "map_of kvs (ascii ''url'') = Some (JStr u)"
    by (auto split: option.splits json.splits)
  with JObj opt show ?thesis by (auto intro: that)
qed (use assms in \<open>simp_all add: wf_item_def\<close>)

lemma wf_item_lines:
  assumes "wf_item r"
  shows "\<exists>ls. item_lines env r = Inr ls"
proof -
  from assms obtain kvs u where r: "r = JObj kvs"
    and url: "map_of kvs (ascii ''url'') = Some (JStr u)"
    and opt: "optional_string (map_of kvs (ascii ''title''))"
      "optional_string (map_of kvs (ascii ''publishedDate''))"
      "optional_string (map_of kvs (ascii ''author''))"
      "optional_string (map_of kvs (ascii ''summary''))"
      "optional_string (map_of kvs (ascii ''text''))"
    by (rule wf_item_cases)
  have t: "\<exists>ls. title_line r = Inr ls"
    using truthy_optional [OF opt(1)] by (auto simp add: r title_line_def interpolate_def)
  have u: "\<exists>ls. url_line r = Inr ls"
    by (simp add: r url_line_def url interpolate_def)
  have d: "\<exists>ls. date_lines env r = Inr ls"
    using truthy_optional [OF opt(2)] by (auto simp add: r date_lines_def locale_date_def)
  have a: "\<exists>ls. author_lines r = Inr ls"
    using truthy_optional [OF opt(3)] by (auto simp add: r author_lines_def interpolate_def)
  have s: "\<exists>ls. summary_lines r = Inr ls"
    using truthy_optional [OF opt(4)] by (auto simp add: r summary_lines_def interpolate_def)
  have x: "\<exists>ls. text_lines r = Inr ls"
    using truthy_optional [OF opt(5)] by (auto simp add: r text_lines_def preview_line_def)
  from t u d a s x show ?thesis
    by (auto simp add: item_lines_def collect_Cons)
qed

lemma wf_text_report:
  assumes "wf_response j"
  shows "\<exists>s. text_report env j = Inr s"
proof -
  from assms obtain kvs where j: "j = JObj kvs"
    by (auto simp add: wf_response_def split: json.splits)
  from assms have c: "\<exists>s. count_text j = Inr s"
    by (auto simp add: j wf_response_def count_text_def interpolate_def
        split: option.splits json.splits)
  from assms obtain xs where xs: "result_items j = Inr xs" "list_all wf_item xs"
    by (auto simp add: j wf_response_def result_items_def split: option.splits json.splits)
  have "list_all (\<lambda>x. \<exists>ls. item_lines env x = Inr ls) xs"
    using xs(2) by (simp add: list_all_iff wf_item_lines)
  then have "\<exists>ls. collect (map (item_lines env) xs) = Inr ls"
    by (simp add: collect_eq_Inr_map)
  with c xs(1) show ?thesis
    by (auto simp add: text_report_def)
qed

lemma wf_items_report:
  assumes "fmt \<noteq> Some (ascii ''json'')"
      and "get_prop (Some results) (ascii ''results'') = Inr (Some (JArr items))"
      and "list_all wf_item items"
  shows "\<exists>report. formatResults env results fmt = Inr report"
proof -
  have "list_all (\<lambda>x. \<exists>ls. item_lines env x = Inr ls) items"
    using assms(3) by (simp add: list_all_iff wf_item_lines)
  then have "\<exists>ls. collect (map (item_lines env) items) = Inr ls"
    by (simp add: collect_eq_Inr_map)
  then show ?thesis
    unfolding text_report_array [OF assms(1,2)] by auto
qed

section \<open>The formatter: empty collections, titles and previews\<close>

text \<open>
  Claim C9. When the result collection of the response is absent (missing or
  \<open>null\<close>) or empty, the text report is exactly this: a line break, the header
  line \<open>Found 0 results\<close> after the magnifying glass, an empty line, and one divider
  rule of sixty box-drawing characters. No item block follows. The same holds for
  every falsy value in the place of the collection.
\<close>

theorem empty_results_report:
  assumes "fmt \<noteq> Some (ascii ''json'')"
      and "get_prop (Some results) (ascii ''results'') = Inr rs"
      and "\<not> truthy rs \<or> rs = Some (JArr [])"
  shows "formatResults env results fmt
         = Inr ([0x0A, 0xD83D, 0xDD0D] @ ascii '' Found 0 results'' @ [0x0A, 0x0A]
                @ replicate 60 0x2500)"
  using no_items_report [OF assms, of env] report_lines [of "ascii ''0''" "[]"]
  by (simp add: ascii_def)

theorem empty_results_report_witness:
  "None \<noteq> Some (ascii ''json'')
   \<and> get_prop (Some (JObj [])) (ascii ''results'') = Inr None
   \<and> \<not> truthy None
   \<and> formatResults host_en_US (JObj []) None
       = Inr ([0x0A, 0xD83D, 0xDD0D] @ ascii '' Found 0 results'' @ [0x0A, 0x0A]
              @ replicate 60 0x2500)
   \<and> Some (ascii ''text'') \<noteq> Some (ascii ''json'')
   \<and> get_prop (Some (JObj [(ascii ''results'', JArr [])])) (ascii ''results'')
       = Inr (Some (JArr []))
   \<and> formatResults host_en_US (JObj [(ascii ''results'', JArr [])]) (Some (ascii ''text''))
       = Inr ([0x0A, 0xD83D, 0xDD0D] @ ascii '' Found 0 results'' @ [0x0A, 0x0A]
              @ replicate 60 0x2500)"
  using empty_results_report [of None "JObj []" None host_en_US]
    empty_results_report [of "Some (ascii ''text'')" "JObj [(ascii ''results'', JArr [])]"
      "Some (JArr [])" host_en_US]
  by (simp add: ascii_def)





text \<open>
  Claim C3, as stated, fails in three places. Where the text is present and empty,
  the empty string is falsy and the statement of lines 54 to 58 pushes nothing: the
  report has no preview block at all, where the claim has an empty line and an empty
  preview line. \<open>slice(0, 300)\<close> counts UTF-16 code units, not characters: a text of
  300 characters whose last one is outside the basic plane (301 code units) is cut in
  the middle of that character and gets the ellipsis. And \<open>replace(/\n/g, " ")\<close>
  replaces every line feed by its own space: two line feeds in a row give two spaces,
  not a single one.
\<close>

theorem preview_block_counterexample:
  "formatResults host_en_US
     (JObj [(ascii ''results'', JArr [JObj [(ascii ''url'', JStr (ascii ''u'')),
        (ascii ''text'', JStr [])]])]) None
   = Inr ([0x0A, 0xD83D, 0xDD0D] @ ascii '' Found 1 results'' @ [0x0A, 0x0A]
          @ replicate 60 0x2500
          @ [0x0A, 0x0A, 0xD83D, 0xDCC4, 0x20] @ ascii ''Untitled''
          @ [0x0A, 0xD83D, 0xDD17, 0x20] @ ascii ''u''
          @ [0x0A, 0x0A] @ replicate 60 0x2500)
   \<and> length (code_points (replicate 299 0x61 @ [0xD83D, 0xDE00])) = 300
   \<and> formatResults host_en_US
     (JObj [(ascii ''results'', JArr [JObj [(ascii ''url'', JStr (ascii ''u'')),
        (ascii ''text'', JStr (replicate 299 0x61 @ [0xD83D, 0xDE00]))]])]) None
   = Inr ([0x0A, 0xD83D, 0xDD0D] @ ascii '' Found 1 results'' @ [0x0A, 0x0A]
          @ replicate 60 0x2500
          @ [0x0A, 0x0A, 0xD83D, 0xDCC4, 0x20] @ ascii ''Untitled''
          @ [0x0A, 0xD83D, 0xDD17, 0x20] @ ascii ''u''
          @ [0x0A, 0x0A] @ replicate 299 0x61 @ [0xD83D] @ ascii ''...''
          @ [0x0A, 0x0A] @ replicate 60 0x2500)
   \<and> formatResults host_en_US
     (JObj [(ascii ''results'', JArr [JObj [(ascii ''url'', JStr (ascii ''u'')),
        (ascii ''text'', JStr [0x61, 0x0A, 0x0A, 0x62])]])]) None
   = Inr ([0x0A, 0xD83D, 0xDD0D] @ ascii '' Found 1 results'' @ [0x0A, 0x0A]
          @ replicate 60 0x2500
          @ [0x0A, 0x0A, 0xD83D, 0xDCC4, 0x20] @ ascii ''Untitled''
          @ [0x0A, 0xD83D, 0xDD17, 0x20] @ ascii ''u''
          @ [0x0A, 0x0A] @ [0x61, 0x20, 0x20, 0x62]
          @ [0x0A, 0x0A] @ replicate 60 0x2500)"
  by code_simp

lemma text_lines_string:
  assumes "map_of kvs (ascii ''text'') = Some (JStr t)" and "t \<noteq> []"
  shows "text_lines (JObj kvs)
         = Inr [[], map (\<lambda>c. if c = 0x0A then 0x20 else c) (take 300 t)
                    @ (if 300 < length t then ascii ''...'' else [])]"
  using assms by (simp add: text_lines_def preview_line_def preview_def LF_def SP_def)

text \<open>
  Claim C3, amended. For every item whose text is a non-empty string, the text
  report holds the preview block of the item: an empty line, the preview line, an
  empty line and the divider rule. The preview line is the first 300 code units of
  the text with every line feed replaced by one space, followed by \<open>...\<close> if and
  only if the text is longer than 300 code units. The report exists whenever the
  items of the response are well formed.
\<close>

theorem body_preview_block:
  assumes "fmt \<noteq> Some (ascii ''json'')"
      and "get_prop (Some results) (ascii ''results'')
           = Inr (Some (JArr (xs @ [JObj kvs] @ ys)))"
      and "map_of kvs (ascii ''text'') = Some (JStr t)" and "t \<noteq> []"
  shows "(formatResults env results fmt = Inr out
            \<longrightarrow> (\<exists>pre post. out = pre @ [0x0A, 0x0A]
                     @ map (\<lambda>c. if c = 0x0A then 0x20 else c) (take 300 t)
                     @ (if 300 < length t then ascii ''...'' else [])
                     @ [0x0A, 0x0A] @ replicate 60 0x2500 @ post))
       \<and> (list_all wf_item (xs @ [JObj kvs] @ ys)
            \<longrightarrow> (\<exists>report. formatResults env results fmt = Inr report))"
proof (intro conjI impI)
  let ?p = "map (\<lambda>c. if c = 0x0A then 0x20 else c) (take 300 t)
            @ (if 300 < length t then ascii ''...'' else [])"
  assume "formatResults env results fmt = Inr out"
  from item_in_report [OF assms(1,2) this] obtain pre post block
    where block: "item_lines env (JObj kvs) = Inr block"
      and out: "out = pre @ concat (map (\<lambda>l. 0x0A # l) block) @ post"
    by blast
  from item_lines_end [OF block text_lines_string [OF assms(3,4)]] obtain b
    where "block = b @ [[], ?p] @ [[], divider]"
    by blast
  with out have "out = (pre @ concat (map (\<lambda>l. 0x0A # l) b)) @ [0x0A, 0x0A] @ ?p
      @ [0x0A, 0x0A] @ replicate 60 0x2500 @ post"
    by (simp add: divider_def)
  then have "out = (pre @ concat (map (\<lambda>l. 0x0A # l) b)) @ [0x0A, 0x0A]
      @ map (\<lambda>c. if c = 0x0A then 0x20 else c) (take 300 t)
      @ (if 300 < length t then ascii ''...'' else [])
      @ [0x0A, 0x0A] @ replicate 60 0x2500 @ post"
    by simp
  then show "\<exists>pre post. out = pre @ [0x0A, 0x0A]
      @ map (\<lambda>c. if c = 0x0A then 0x20 else c) (take 300 t)
      @ (if 300 < length t then ascii ''...'' else [])
      @ [0x0A, 0x0A] @ replicate 60 0x2500 @ post"
    by blast
next
  assume "list_all wf_item (xs @ [JObj kvs] @ ys)"
  then show "\<exists>report. formatResults env results fmt = Inr report"
    by (rule wf_items_report [OF assms(1,2)])
qed

theorem body_preview_block_witness:
  "None \<noteq> Some (ascii ''json'')
   \<and> replicate 150 0x0A @ replicate 151 (0x61 :: 16 word) \<noteq> []
   \<and> length (replicate 150 0x0A @ replicate 151 (0x61 :: 16 word)) = 301
   \<and> list_all wf_item [JObj [(ascii ''url'', JStr (ascii ''u'')),
        (ascii ''text'', JStr (replicate 150 0x0A @ replicate 151 0x61))]]
   \<and> formatResults host_en_US
       (JObj [(ascii ''results'', JArr [JObj [(ascii ''url'', JStr (ascii ''u'')),
          (ascii ''text'', JStr (replicate 150 0x0A @ replicate 151 0x61))]])]) None
     = Inr ([0x0A, 0xD83D, 0xDD0D] @ ascii '' Found 1 results'' @ [0x0A, 0x0A]
            @ replicate 60 0x2500
            @ [0x0A, 0x0A, 0xD83D, 0xDCC4, 0x20] @ ascii ''Untitled''
            @ [0x0A, 0xD83D, 0xDD17, 0x20] @ ascii ''u''
            @ [0x0A, 0x0A] @ replicate 150 0x20 @ replicate 150 0x61 @ ascii ''...''
            @ [0x0A, 0x0A] @ replicate 60 0x2500)
   \<and> (\<exists>pre post.
         [0x0A, 0xD83D, 0xDD0D] @ ascii '' Found 1 results'' @ [0x0A, 0x0A]
         @ replicate 60 0x2500
         @ [0x0A, 0x0A, 0xD83D, 0xDCC4, 0x20] @ ascii ''Untitled''
         @ [0x0A, 0xD83D, 0xDD17, 0x20] @ ascii ''u''
         @ [0x0A, 0x0A] @ replicate 150 0x20 @ replicate 150 0x61 @ ascii ''...''
         @ [0x0A, 0x0A] @ replicate 60 0x2500
       = pre @ [0x0A, 0x0A] @ replicate 150 0x20 @ replicate 150 0x61 @ ascii ''...''
         @ [0x0A, 0x0A] @ replicate 60 0x2500 @ post)
   \<and> replicate 300 (0x61 :: 16 word) \<noteq> []
   \<and> formatResults host_en_US
       (JObj [(ascii ''results'', JArr [JObj [(ascii ''url'', JStr (ascii ''u'')),
          (ascii ''text'', JStr (replicate 300 0x61))]])]) None
     = Inr ([0x0A, 0xD83D, 0xDD0D] @ ascii '' Found 1 results'' @ [0x0A, 0x0A]
            @ replicate 60 0x2500
            @ [0x0A, 0x0A, 0xD83D, 0xDCC4, 0x20] @ ascii ''Untitled''
            @ [0x0A, 0xD83D, 0xDD17, 0x20] @ ascii ''u''
            @ [0x0A, 0x0A] @ replicate 300 0x61
            @ [0x0A, 0x0A] @ replicate 60 0x2500)
   \<and> (\<exists>pre post.
         [0x0A, 0xD83D, 0xDD0D] @ ascii '' Found 1 results'' @ [0x0A, 0x0A]
         @ replicate 60 0x2500
         @ [0x0A, 0x0A, 0xD83D, 0xDCC4, 0x20] @ ascii ''Untitled''
         @ [0x0A, 0xD83D, 0xDD17, 0x20] @ ascii ''u''
         @ [0x0A, 0x0A] @ replicate 300 0x61
         @ [0x0A, 0x0A] @ replicate 60 0x2500
       = pre @ [0x0A, 0x0A] @ replicate 300 0x61 @ [0x0A, 0x0A] @ replicate 60 0x2500 @ post)"
proof -
  let ?long = "replicate 150 0x0A @ replicate 151 (0x61 :: 16 word)"
  let ?exact = "replicate 300 (0x61 :: 16 word)"
  let ?item = "\<lambda>t. JObj [(ascii ''url'', JStr (ascii ''u'')), (ascii ''text'', JStr t)]"
  let ?results = "\<lambda>t. JObj [(ascii ''results'', JArr [?item t])]"
  let ?out = "\<lambda>p. [0x0A, 0xD83D, 0xDD0D] @ ascii '' Found 1 results'' @ [0x0A, 0x0A]
      @ replicate 60 0x2500
      @ [0x0A, 0x0A, 0xD83D, 0xDCC4, 0x20] @ ascii ''Untitled''
      @ [0x0A, 0xD83D, 0xDD17, 0x20] @ ascii ''u''
      @ [0x0A, 0x0A] @ p @ [0x0A, 0x0A] @ replicate 60 0x2500"
  have 1: "None \<noteq> Some (ascii ''json'')" by simp
  have 2: "get_prop (Some (?results t)) (ascii ''results'')
      = Inr (Some (JArr ([] @ [JObj [(ascii ''url'', JStr (ascii ''u'')),
          (ascii ''text'', JStr t)]] @ [])))" for t
    by simp
  have 3: "map_of [(ascii ''url'', JStr (ascii ''u'')), (ascii ''text'', JStr t)] (ascii ''text'')
      = Some (JStr t)" for t
    by (simp add: ascii_def)
  have l4: "?long \<noteq> []" by simp
  have e4: "?exact \<noteq> []" by simp
  have l5: "formatResults host_en_US (?results ?long) None
      = Inr (?out (replicate 150 0x20 @ replicate 150 0x61 @ ascii ''...''))"
    by code_simp
  have e5: "formatResults host_en_US (?results ?exact) None = Inr (?out ?exact)"
    by code_simp
  have l6: "list_all wf_item ([] @ [?item ?long] @ [])" by code_simp
  have l7: "map (\<lambda>c. if c = 0x0A then 0x20 else c) (take 300 ?long)
        @ (if 300 < length ?long then ascii ''...'' else [])
      = replicate 150 0x20 @ replicate 150 0x61 @ ascii ''...''"
    by simp
  have e7: "map (\<lambda>c. if c = 0x0A then 0x20 else c) (take 300 ?exact)
        @ (if 300 < length ?exact then ascii ''...'' else [])
      = ?exact"
    by simp
  show ?thesis
    using l4 e4 l5 e5 l6
      body_preview_block [OF 1 2 3 l4, of host_en_US
        "?out (replicate 150 0x20 @ replicate 150 0x61 @ ascii ''...'')"]
      body_preview_block [OF 1 2 3 e4, of host_en_US "?out ?exact"]
    unfolding l7 e7 by simp
qed

section \<open>The formatter as a function of its input\<close>

lemma locale_date_cong:
  assumes "toLocaleDateString env = toLocaleDateString env'"
  shows "locale_date env v = locale_date env' v"
  by (cases v) (simp_all add: locale_date_def assms)

lemma date_lines_cong:
  assumes "toLocaleDateString env = toLocaleDateString env'"
  shows "date_lines env r = date_lines env' r"
  by (cases "get_prop (Some r) (ascii ''publishedDate'')")
    (simp_all add: date_lines_def locale_date_cong [OF assms])

lemma item_lines_cong:
  assumes "toLocaleDateString env = toLocaleDateString env'"
  shows "item_lines env r = item_lines env' r"
  by (simp add: item_lines_def date_lines_cong [OF assms])

lemma item_lines_undated:
  assumes "\<forall>v. get_prop (Some r) (ascii ''publishedDate'') = Inr v \<longrightarrow> \<not> truthy v"
  shows "item_lines env r = item_lines env' r"
proof -
  have "date_lines env r = date_lines env' r"
    using assms
    by (cases "get_prop (Some r) (ascii ''publishedDate'')") (simp_all add: date_lines_def)
  then show ?thesis by (simp add: item_lines_def)
qed

lemma text_report_cong:
  assumes "toLocaleDateString env = toLocaleDateString env'"
  shows "text_report env j = text_report env' j"
proof -
  have "item_lines env = item_lines env'"
    by (rule ext) (rule item_lines_cong [OF assms])
  then show ?thesis by (simp add: text_report_def)
qed

lemma text_report_undated:
  assumes "\<not> dated j"
  shows "text_report env j = text_report env' j"
proof (cases "result_items j")
  case (Inl e)
  then show ?thesis by (simp add: text_report_def)
next
  case (Inr xs)
  have "item_lines env r = item_lines env' r" if "r \<in> set xs" for r
  proof (rule item_lines_undated, intro allI impI)
    fix v
    assume "get_prop (Some r) (ascii ''publishedDate'') = Inr v"
    with assms Inr that show "\<not> truthy v"
      by (auto simp add: dated_def list_ex_iff)
  qed
  then have "collect (map (item_lines env) xs) = collect (map (item_lines env') xs)"
    by (rule collect_map_cong)
  with Inr show ?thesis by (simp add: text_report_def)
qed

lemma optional_string_cases:
  assumes "optional_string v"
  obtains "v = None" | "v = Some JNull" | s where "v = Some (JStr s)"
  using assms by (auto simp add: optional_string_def split: option.splits json.splits)

lemma wf_item_written:
  assumes "wf_item r"
  shows "item_lines env r = Inr (written_block env r)"
proof -
  from assms obtain kvs u where r: "r = JObj kvs"
    and url: "map_of kvs (ascii ''url'') = Some (JStr u)"
    and opt: "optional_string (map_of kvs (ascii ''title''))"
      "optional_string (map_of kvs (ascii ''publishedDate''))"
      "optional_string (map_of kvs (ascii ''author''))"
      "optional_string (map_of kvs (ascii ''summary''))"
      "optional_string (map_of kvs (ascii ''text''))"
    by (rule wf_item_cases)
  have t: "title_line r = Inr [[0xD83D, 0xDCC4, 0x20]
      @ (case shown r ''title'' of None \<Rightarrow> ascii ''Untitled'' | Some s \<Rightarrow> s)]"
    using opt(1)
    by (rule optional_string_cases)
      (simp_all add: r title_line_def interpolate_def shown_def SP_def)
  have u: "url_line r = Inr [[0xD83D, 0xDD17, 0x20]
      @ (case shown r ''url'' of None \<Rightarrow> [] | Some u \<Rightarrow> u)]"
    by (simp add: r url_line_def interpolate_def shown_def url SP_def)
  have d: "date_lines env r = Inr (case shown r ''publishedDate'' of
        None \<Rightarrow> []
      | Some d \<Rightarrow> [[0xD83D, 0xDCC5, 0x20] @ toLocaleDateString env (JStr d)])"
    using opt(2)
    by (rule optional_string_cases)
      (simp_all add: r date_lines_def locale_date_def shown_def SP_def)
  have a: "author_lines r = Inr (case shown r ''author'' of
        None \<Rightarrow> []
      | Some a \<Rightarrow> [[0x270D, 0xFE0F, 0x20, 0x20] @ a])"
    using opt(3)
    by (rule optional_string_cases)
      (simp_all add: r author_lines_def interpolate_def shown_def SP_def)
  have s: "summary_lines r = Inr (case shown r ''summary'' of
        None \<Rightarrow> []
      | Some s \<Rightarrow> [[], [0xD83D, 0xDCDD, 0x20] @ s])"
    using opt(4)
    by (rule optional_string_cases)
      (simp_all add: r summary_lines_def interpolate_def shown_def SP_def)
  have x: "text_lines r = Inr (case shown r ''text'' of
        None \<Rightarrow> []
      | Some t \<Rightarrow>
          [[], map (\<lambda>c. if c = 0x0A then 0x20 else c) (take 300 t)
               @ (if 300 < length t then ascii ''...'' else [])])"
    using opt(5)
    by (rule optional_string_cases)
      (simp_all add: r text_lines_def preview_line_def preview_def shown_def SP_def LF_def)
  show ?thesis
    unfolding item_lines_def t u d a s x
    by (simp add: collect_Cons written_block_def divider_def)
qed

lemma wf_items_written:
  assumes "list_all wf_item xs"
  shows "collect (map (item_lines env) xs) = Inr (concat (map (written_block env) xs))"
  using assms by (induction xs) (simp_all add: collect_Cons wf_item_written)

lemma wf_written_report:
  assumes "wf_response r" and "fmt \<noteq> Some (ascii ''json'')"
  shows "formatResults env r fmt = Inr (written_report env r)"
proof -
  from assms(1) obtain kvs where r: "r = JObj kvs"
    by (auto simp add: wf_response_def split: json.splits)
  from assms(1) consider "map_of kvs (ascii ''results'') = None"
    | "map_of kvs (ascii ''results'') = Some JNull"
    | xs where "map_of kvs (ascii ''results'') = Some (JArr xs)" "list_all wf_item xs"
    by (auto simp add: r wf_response_def split: option.splits json.splits)
  then show ?thesis
  proof cases
    case 1
    then have "formatResults env r fmt
        = Inr ([0x0A, 0xD83D, 0xDD0D] @ ascii '' Found 0 results'' @ [0x0A, 0x0A]
               @ replicate 60 0x2500)"
      using no_items_report [OF assms(2), of r None env] report_lines [of "ascii ''0''" "[]"]
      by (simp add: r ascii_def)
    with 1 show ?thesis
      by (simp add: written_report_def written_items_def r decimal_0 ascii_def)
  next
    case 2
    then have "formatResults env r fmt
        = Inr ([0x0A, 0xD83D, 0xDD0D] @ ascii '' Found 0 results'' @ [0x0A, 0x0A]
               @ replicate 60 0x2500)"
      using no_items_report [OF assms(2), of r "Some JNull" env]
        report_lines [of "ascii ''0''" "[]"]
      by (simp add: r ascii_def)
    with 2 show ?thesis
      by (simp add: written_report_def written_items_def r decimal_0 ascii_def)
  next
    case 3
    from 3(1) have g: "get_prop (Some r) (ascii ''results'') = Inr (Some (JArr xs))"
      by (simp add: r)
    show ?thesis
      unfolding text_report_array [OF assms(2) g] wf_items_written [OF 3(2)]
      by (simp add: written_report_def written_items_def r 3(1))
  qed
qed

lemma push_performs:
  "argument (snd (push (\<lambda>results. m) f)) = argument f
   \<and> (case m of
        Inl x \<Rightarrow> fst (push (\<lambda>results. m) f) = Some x
      | Inr ls \<Rightarrow> push (\<lambda>results. m) f = (None, f\<lparr>pushed := pushed f @ ls\<rparr>))"
  by (cases m) (simp_all add: push_def)

lemma sequence_performs:
  assumes "list_all2 (\<lambda>s m. \<forall>f. argument (snd (s f)) = argument f
             \<and> (case m of
                  Inl x \<Rightarrow> fst (s f) = Some x
                | Inr ls \<Rightarrow> s f = (None, f\<lparr>pushed := pushed f @ ls\<rparr>))) ss ms"
  shows "argument (snd (sequence ss f)) = argument f
       \<and> (case collect ms of
            Inl x \<Rightarrow> fst (sequence ss f) = Some x
          | Inr ls \<Rightarrow> sequence ss f = (None, f\<lparr>pushed := pushed f @ ls\<rparr>))"
  using assms
proof (induction ss ms arbitrary: f rule: list_all2_induct)
  case Nil
  then show ?case by simp
next
  case (Cons s ss m ms)
  from Cons.hyps(1) have s: "argument (snd (s f)) = argument f"
    and m: "case m of Inl x \<Rightarrow> fst (s f) = Some x
                     | Inr ls \<Rightarrow> s f = (None, f\<lparr>pushed := pushed f @ ls\<rparr>)"
    by simp_all
  show ?case
  proof (cases m)
    case (Inl x)
    with m have "fst (s f) = Some x" by simp
    then obtain f' where "s f = (Some x, f')" by (cases "s f") simp
    with s Inl show ?thesis by simp
  next
    case (Inr ls)
    with m have sf: "s f = (None, f\<lparr>pushed := pushed f @ ls\<rparr>)" by simp
    from Cons.IH [of "f\<lparr>pushed := pushed f @ ls\<rparr>"]
    show ?thesis
      by (cases "collect ms") (simp_all add: sf Inr collect_Cons)
  qed
qed

lemma loop_body_performs:
  "argument (snd (loop_body env r f)) = argument f
   \<and> (case item_lines env r of
        Inl x \<Rightarrow> fst (loop_body env r f) = Some x
      | Inr ls \<Rightarrow> loop_body env r f = (None, f\<lparr>pushed := pushed f @ ls\<rparr>))"
  unfolding loop_body_def item_lines_def
  by (rule sequence_performs) (simp add: push_performs)

lemma loop_performs:
  "argument (snd (sequence (map (loop_body env) items) f)) = argument f
   \<and> (case collect (map (item_lines env) items) of
        Inl x \<Rightarrow> fst (sequence (map (loop_body env) items) f) = Some x
      | Inr ls \<Rightarrow> sequence (map (loop_body env) items) f
                   = (None, f\<lparr>pushed := pushed f @ ls\<rparr>))"
  by (rule sequence_performs) (simp add: list_all2_map1 list_all2_map2 list_all2_same
      loop_body_performs)

lemma run_text_report:
  "(case sequence
           [push (\<lambda>results. bind (count_text results) (\<lambda>count. Inr [header count])),
            push (\<lambda>results. Inr [divider]),
            for_of result_items (loop_body env)]
           \<lparr>argument = results, pushed = []\<rparr> of
      (Some x, f) \<Rightarrow> (Inl x, argument f)
    | (None, f) \<Rightarrow> (Inr (join [LF] (pushed f)), argument f))
   = (text_report env results, results)"
proof (cases "count_text results")
  case (Inl x)
  then show ?thesis by (simp add: push_def text_report_def)
next
  case count: (Inr c)
  show ?thesis
  proof (cases "result_items results")
    case (Inl x)
    with count show ?thesis by (simp add: push_def for_of_def text_report_def)
  next
    case items: (Inr xs)
    let ?f = "\<lparr>argument = results, pushed = [header c, divider]\<rparr>"
    note loop = loop_performs [of env xs ?f]
    show ?thesis
    proof (cases "collect (map (item_lines env) xs)")
      case (Inl x)
      with loop have "fst (sequence (map (loop_body env) xs) ?f) = Some x"
        and "argument (snd (sequence (map (loop_body env) xs) ?f)) = results"
        by simp_all
      then obtain f' where "sequence (map (loop_body env) xs) ?f = (Some x, f')"
        and "argument f' = results"
        by (cases "sequence (map (loop_body env) xs) ?f") simp
      with count items Inl show ?thesis
        by (simp add: push_def for_of_def text_report_def)
    next
      case (Inr ls)
      with loop have "sequence (map (loop_body env) xs) ?f
          = (None, ?f\<lparr>pushed := pushed ?f @ ls\<rparr>)"
        by simp
      with count items Inr show ?thesis
        by (simp add: push_def for_of_def text_report_def)
    qed
  qed
qed

lemma run_formatResults_reads:
  "run_formatResults env results fmt = (formatResults env results fmt, results)"
  unfolding run_formatResults_def formatResults_def run_text_report by simp

text \<open>
  Claim C4, as stated, fails on the locale: the date line is rendered by
  \<open>toLocaleDateString\<close>, and the same response formatted on a host with the locale
  \<open>en-US\<close> and on one with the locale \<open>de-DE\<close> gives two different reports.
\<close>

theorem locale_dependence_counterexample:
  "formatResults host_en_US dated_response None
     = Inr (join [LF]
         [header (ascii ''1''), divider, [],
          [0xD83D, 0xDCC4, SP] @ ascii ''Example'',
          [0xD83D, 0xDD17, SP] @ ascii ''https://example.com/b'',
          [0xD83D, 0xDCC5, SP] @ ascii ''1/15/2024'', [], divider])
   \<and> formatResults host_de_DE dated_response None
     = Inr (join [LF]
         [header (ascii ''1''), divider, [],
          [0xD83D, 0xDCC4, SP] @ ascii ''Example'',
          [0xD83D, 0xDD17, SP] @ ascii ''https://example.com/b'',
          [0xD83D, 0xDCC5, SP] @ ascii ''15.1.2024'', [], divider])
   \<and> formatResults host_en_US dated_response None
     \<noteq> formatResults host_de_DE dated_response None"
  by code_simp

text \<open>
  Claim C4, amended. For every well-formed response and every format selector:
  \<^item> the formatter returns a report, it never throws;
  \<^item> the report is a function of the response, the selector and the host's rendering
    of dates alone: two hosts that render dates alike give the same report, and in
    JSON mode, or when no result carries a published date, every two hosts do;
  \<^item> a missing optional field is skipped: the text report is the header, the divider
    and, item by item, an empty line, the title line, the URL line, one line or
    block for each further field that holds a non-empty string, an empty line and
    the divider, and nothing stands in for a field that is missing;
  \<^item> the run of the function leaves the object it was given as it found it, and what
    it returns is this report.
\<close>

theorem formatting_deterministic:
  assumes "wf_response r"
  shows "(\<exists>s. formatResults env r fmt = Inr s)
       \<and> (toLocaleDateString env = toLocaleDateString env'
            \<longrightarrow> formatResults env r fmt = formatResults env' r fmt)
       \<and> (fmt = Some (ascii ''json'') \<or> \<not> dated r
            \<longrightarrow> formatResults env r fmt = formatResults env' r fmt)
       \<and> (fmt \<noteq> Some (ascii ''json'')
            \<longrightarrow> formatResults env r fmt = Inr (written_report env r))
       \<and> run_formatResults env r fmt = (formatResults env r fmt, r)"
proof (intro conjI impI)
  show "\<exists>s. formatResults env r fmt = Inr s"
    using wf_text_report [OF assms, of env] by (simp add: formatResults_def)
  show "formatResults env r fmt = formatResults env' r fmt"
    if "toLocaleDateString env = toLocaleDateString env'"
    using text_report_cong [OF that, of r] by (simp add: formatResults_def)
  show "formatResults env r fmt = formatResults env' r fmt"
    if "fmt = Some (ascii ''json'') \<or> \<not> dated r"
    using that text_report_undated [of r env env'] by (auto simp add: formatResults_def)
  show "formatResults env r fmt = Inr (written_report env r)"
    if "fmt \<noteq> Some (ascii ''json'')"
    using assms that by (rule wf_written_report)
  show "run_formatResults env r fmt = (formatResults env r fmt, r)"
    by (rule run_formatResults_reads)
qed

theorem formatting_deterministic_witness:
  "wf_response plain_response \<and> \<not> dated plain_response
   \<and> (\<exists>s. formatResults host_en_US plain_response None = Inr s)
   \<and> formatResults host_en_US plain_response None = formatResults host_de_DE plain_response None
   \<and> None \<noteq> Some (ascii ''json'')
   \<and> formatResults host_en_US plain_response None
       = Inr (written_report host_en_US plain_response)
   \<and> written_report host_en_US plain_response
       = [0x0A, 0xD83D, 0xDD0D] @ ascii '' Found 1 results'' @ [0x0A, 0x0A]
         @ replicate 60 0x2500
         @ [0x0A, 0x0A, 0xD83D, 0xDCC4, 0x20] @ ascii ''Untitled''
         @ [0x0A, 0xD83D, 0xDD17, 0x20] @ ascii ''https://example.com/a''
         @ [0x0A, 0x0A] @ replicate 60 0x2500
   \<and> run_formatResults host_en_US plain_response None
       = (formatResults host_en_US plain_response None, plain_response)
   \<and> wf_response dated_response
   \<and> toLocaleDateString host_en_US = toLocaleDateString (host_en_US\<lparr>now := 0\<rparr>)
   \<and> formatResults host_en_US dated_response None
       = formatResults (host_en_US\<lparr>now := 0\<rparr>) dated_response None
   \<and> formatResults host_en_US dated_response None
       = Inr (written_report host_en_US dated_response)
   \<and> written_report host_en_US dated_response
       = [0x0A, 0xD83D, 0xDD0D] @ ascii '' Found 1 results'' @ [0x0A, 0x0A]
         @ replicate 60 0x2500
         @ [0x0A, 0x0A, 0xD83D, 0xDCC4, 0x20] @ ascii ''Example''
         @ [0x0A, 0xD83D, 0xDD17, 0x20] @ ascii ''https://example.com/b''
         @ [0x0A, 0xD83D, 0xDCC5, 0x20] @ ascii ''1/15/2024''
         @ [0x0A, 0x0A] @ replicate 60 0x2500"
proof -
  have 1: "wf_response plain_response" by code_simp
  have 2: "\<not> dated plain_response" by code_simp
  have 3: "wf_response dated_response" by code_simp
  have 4: "toLocaleDateString host_en_US = toLocaleDateString (host_en_US\<lparr>now := 0\<rparr>)"
    by (simp add: host_en_US_def)
  have 5: "None \<noteq> Some (ascii ''json'')" by simp
  have 6: "written_report host_en_US plain_response
       = [0x0A, 0xD83D, 0xDD0D] @ ascii '' Found 1 results'' @ [0x0A, 0x0A]
         @ replicate 60 0x2500
         @ [0x0A, 0x0A, 0xD83D, 0xDCC4, 0x20] @ ascii ''Untitled''
         @ [0x0A, 0xD83D, 0xDD17, 0x20] @ ascii ''https://example.com/a''
         @ [0x0A, 0x0A] @ replicate 60 0x2500"
    by code_simp
  have 7: "written_report host_en_US dated_response
       = [0x0A, 0xD83D, 0xDD0D] @ ascii '' Found 1 results'' @ [0x0A, 0x0A]
         @ replicate 60 0x2500
         @ [0x0A, 0x0A, 0xD83D, 0xDCC4, 0x20] @ ascii ''Example''
         @ [0x0A, 0xD83D, 0xDD17, 0x20] @ ascii ''https://example.com/b''
         @ [0x0A, 0xD83D, 0xDCC5, 0x20] @ ascii ''1/15/2024''
         @ [0x0A, 0x0A] @ replicate 60 0x2500"
    by code_simp
  show ?thesis
    using 1 2 3 4 5 6 7 formatting_deterministic [OF 1, of host_en_US None host_de_DE]
      formatting_deterministic [OF 3, of host_en_US None "host_en_US\<lparr>now := 0\<rparr>"]
    by blast
qed

section \<open>The request builder and the actions\<close>

lemma digit_facts:
  assumes "d < 10"
  shows "digit_value (digit d) = Some d" and "is_digit (digit d)"
proof -
  have "list_all (\<lambda>d. digit_value (digit d) = Some d \<and> is_digit (digit d)) [0..<10]"
    by code_simp
  moreover have "d \<in> set [0..<10]"
    using assms by simp
  ultimately have "digit_value (digit d) = Some d \<and> is_digit (digit d)"
    unfolding list_all_iff by blast
  then show "digit_value (digit d) = Some d" and "is_digit (digit d)"
    by simp_all
qed

lemma is_digit_not_white: "is_digit c \<Longrightarrow> \<not> is_white c"
  by (auto simp add: is_white_def is_digit_def word_le_nat_alt)

lemma is_digit_not_sign:
  "is_digit c \<Longrightarrow> c \<noteq> 0x2B \<and> c \<noteq> 0x2D \<and> c \<noteq> 0x78 \<and> c \<noteq> 0x58"
  by (auto simp add: is_digit_def)

lemma is_digit_radix: "is_digit c \<Longrightarrow> radix_digit 10 c"
  by (auto simp add: radix_digit_def digit_value_def is_digit_def word_le_nat_alt)

lemma decimal_numeral: "numeral_string (decimal n)"
proof (induction n rule: decimal.induct)
  case (1 n)
  show ?case
  proof (cases "n < 10")
    case True
    then show ?thesis by (simp add: decimal_digit numeral_string_def digit_facts)
  next
    case False
    have "is_digit (digit (n mod 10))"
      by (rule digit_facts) simp
    with False 1 show ?thesis
      by (subst decimal.simps) (simp add: numeral_string_def)
  qed
qed

lemma mathInt_snoc: "mathInt R (Z @ [c]) = mathInt R Z * R + the (digit_value c)"
  by (simp add: mathInt_def)

lemma mathInt_decimal: "mathInt 10 (decimal n) = n"
proof (induction n rule: decimal.induct)
  case (1 n)
  show ?case
  proof (cases "n < 10")
    case True
    then show ?thesis by (simp add: decimal_digit mathInt_def digit_facts)
  next
    case False
    have "n mod 10 < 10" by simp
    then have "the (digit_value (digit (n mod 10))) = n mod 10"
      by (simp add: digit_facts)
    with False 1 show ?thesis
      by (subst decimal.simps) (simp add: mathInt_snoc)
  qed
qed

lemma parseInt_plain:
  assumes "dropWhile is_white s = s" and "hd s \<noteq> 0x2D" and "hd s \<noteq> 0x2B"
      and "take 2 s \<noteq> ascii ''0x''" and "take 2 s \<noteq> ascii ''0X''"
  shows "parseInt s =
         (if takeWhile (radix_digit 10) s = [] then NaN
          else Num (int (mathInt 10 (takeWhile (radix_digit 10) s))))"
  using assms by (simp add: parseInt_def Let_def)

lemma parseInt_minus:
  assumes "dropWhile is_white s = s" and "hd s \<noteq> 0x2D" and "hd s \<noteq> 0x2B"
      and "take 2 s \<noteq> ascii ''0x''" and "take 2 s \<noteq> ascii ''0X''"
  shows "parseInt (0x2D # s) =
         (if takeWhile (radix_digit 10) s = [] then NaN
          else Num (- int (mathInt 10 (takeWhile (radix_digit 10) s))))"
  using assms by (simp add: parseInt_def Let_def is_white_def)

lemma numeral_string_plain:
  assumes "numeral_string s"
  shows "dropWhile is_white s = s" and "hd s \<noteq> 0x2D" and "hd s \<noteq> 0x2B"
    and "take 2 s \<noteq> ascii ''0x''" and "take 2 s \<noteq> ascii ''0X''"
    and "takeWhile (radix_digit 10) s = s" and "s \<noteq> []"
proof -
  from assms obtain c cs where s: "s = c # cs" and all: "list_all is_digit s"
    by (cases s) (auto simp add: numeral_string_def)
  from all s have c: "is_digit c" by simp
  show "dropWhile is_white s = s"
    using c by (simp add: s is_digit_not_white)
  show "hd s \<noteq> 0x2D" "hd s \<noteq> 0x2B"
    using is_digit_not_sign [OF c] by (simp_all add: s)
  have "take 2 s \<noteq> [a, 0x78] \<and> take 2 s \<noteq> [a, 0x58]" for a
  proof (cases cs)
    case Nil
    then show ?thesis by (simp add: s)
  next
    case (Cons e es)
    with all s have "is_digit e" by simp
    with is_digit_not_sign [of e] Cons show ?thesis by (auto simp add: s)
  qed
  then show "take 2 s \<noteq> ascii ''0x''" "take 2 s \<noteq> ascii ''0X''"
    by (simp_all add: ascii_def)
  have "list_all (radix_digit 10) s"
    using all by (auto simp add: list_all_iff is_digit_radix)
  then show "takeWhile (radix_digit 10) s = s"
    by (simp add: list_all_iff takeWhile_eq_all_conv)
  show "s \<noteq> []" by (simp add: s)
qed

lemma parseInt_decimal: "parseInt (decimal n) = Num (int n)"
proof -
  note p = numeral_string_plain [OF decimal_numeral [of n]]
  show ?thesis
    unfolding parseInt_plain [OF p(1-5)] p(6) using p(7) by (simp add: mathInt_decimal)
qed

lemma parseInt_negative: "parseInt (0x2D # decimal n) = Num (- int n)"
proof -
  note p = numeral_string_plain [OF decimal_numeral [of n]]
  show ?thesis
    unfolding parseInt_minus [OF p(1-5)] p(6) using p(7) by (simp add: mathInt_decimal)
qed

lemma parseInt_no_digit:
  assumes "\<not> is_white c" and "c \<noteq> 0x2B" and "c \<noteq> 0x2D" and "\<not> radix_digit 10 c"
  shows "parseInt (c # cs) = NaN"
proof -
  have "c \<noteq> 0x30"
    using assms(4) by (auto simp add: radix_digit_def digit_value_def)
  then have "take 2 (c # cs) \<noteq> ascii ''0x''" "take 2 (c # cs) \<noteq> ascii ''0X''"
    by (auto simp add: ascii_def)
  with assms show ?thesis
    by (simp add: parseInt_plain)
qed

lemma date_floor_NaN: "parseInt d = NaN \<Longrightarrow> date_floor env d = Inl RangeError"
  by (simp add: date_floor_def days_ago_def Date_toISOString_def Date_setDate_def
      Date_getDate_def minus_number_def)


lemma or_default_Some: "s \<noteq> [] \<Longrightarrow> or_default (Some s) d = s"
  by (simp add: or_default_def)

lemma decimal_nonempty: "decimal n \<noteq> []"
  using decimal_numeral [of n] by (simp add: numeral_string_def)

text \<open>
  Claim C1, as stated, fails: nothing validates the \<open>num\<close> string. With
  \<open>--num abc\<close> the search is issued with the result count NaN, with \<open>--num=-5\<close>
  with the result count -5; both runs end with exit code 0 and an empty error stream.
\<close>

theorem num_not_rejected_counterexample:
  "search_action host_en_US finds_nothing (ascii ''q'')
     (search_defaults (no_flags\<lparr>num := Some (ascii ''abc'')\<rparr>))
   = \<lparr>stdout = [join [LF] [header (ascii ''0''), divider]], stderr = [],
      calls = [Search (ascii ''q'')
                 (no_options\<lparr>numResults := Some NaN, req_type := Some (ascii ''auto'')\<rparr>)],
      exit_code = 0\<rparr>
   \<and> search_action host_en_US finds_nothing (ascii ''q'')
     (search_defaults (no_flags\<lparr>num := Some (ascii ''-5'')\<rparr>))
   = \<lparr>stdout = [join [LF] [header (ascii ''0''), divider]], stderr = [],
      calls = [Search (ascii ''q'')
                 (no_options\<lparr>numResults := Some (Num (- 5)), req_type := Some (ascii ''auto'')\<rparr>)],
      exit_code = 0\<rparr>"
  by code_simp

lemma search_call_fails:
  "(\<exists>e. search_call env q options = Inl e)
   = (given (days options) \<and> (\<exists>e. date_floor env (the (days options)) = Inl e))"
  by (cases "date_floor env (the (days options))")
    (auto simp add: search_call_def search_options_def)

lemma research_call_fails:
  "(\<exists>e. research_call env q options = Inl e)
   = (given (days options) \<and> (\<exists>e. date_floor env (the (days options)) = Inl e))"
  by (cases "date_floor env (the (days options))") (auto simp add: research_call_def)

lemma news_call_fails:
  "(\<exists>e. news_call env q options = Inl e)
   = (\<exists>e. date_floor env (or_default (days options) (ascii ''7'')) = Inl e)"
  by (cases "date_floor env (or_default (days options) (ascii ''7''))")
    (auto simp add: news_call_def Let_def date_floor_def)

lemma attempt_calls: "calls (attempt env exa printed (Inr c) fmt) = [c]"
  by (simp add: attempt_def caught_def split: sum.splits)

text \<open>
  Claim C1, amended. No builder rejects a \<open>num\<close> string. Whether a builder fails
  is decided by the \<open>days\<close> string alone: \<open>search\<close> and \<open>research\<close> fail exactly
  when the days flag is given and its date floor cannot be rendered, \<open>news\<close> exactly
  when the date floor of its days string (of the default 7) cannot be, and \<open>similar\<close>
  and \<open>papers\<close> never fail. With a credential, the call that is built is the one
  call issued. Its result count is \<open>parseInt\<close> of the \<open>num\<close> string, or of the
  default when the string is empty or absent: for the decimal numeral of an integer
  \<open>n\<close> up to \<open>2 ^ 53\<close> the count is \<open>n\<close>, also when \<open>n\<close> is zero, and for the
  numeral with a minus sign it is \<open>- n\<close>; for a string whose first character is
  neither white space, a sign nor a digit it is NaN. A \<open>days\<close> string that
  \<open>parseInt\<close> reads as NaN makes the date invalid, and the builder of \<open>search\<close>,
  \<open>research\<close> and \<open>news\<close> fails with the RangeError that \<open>toISOString\<close> throws.
  The result count is stated where the integer of the model is the Number of the
  engine.
\<close>

theorem num_parsed_not_validated:
  assumes "has_key env"
  shows
    "((\<exists>e. search_call env q options = Inl e)
        = (given (days options) \<and> (\<exists>e. date_floor env (the (days options)) = Inl e)))
     \<and> ((\<exists>e. research_call env q options = Inl e)
        = (given (days options) \<and> (\<exists>e. date_floor env (the (days options)) = Inl e)))
     \<and> ((\<exists>e. news_call env q options = Inl e)
        = (\<exists>e. date_floor env (or_default (days options) (ascii ''7'')) = Inl e))
     \<and> (search_call env q options = Inr c
        \<longrightarrow> calls (search_action env exa q options) = [c]
            \<and> (exact (parseInt (or_default (num options) (ascii ''10'')))
               \<longrightarrow> numResults (request_of c)
                   = Some (parseInt (or_default (num options) (ascii ''10'')))))
     \<and> (research_call env q options = Inr c
        \<longrightarrow> calls (research_action env exa q options) = [c]
            \<and> (exact (parseInt (or_default (num options) (ascii ''5'')))
               \<longrightarrow> numResults (request_of c)
                   = Some (parseInt (or_default (num options) (ascii ''5'')))))
     \<and> (news_call env q options = Inr c
        \<longrightarrow> calls (news_action env exa q options) = [c]
            \<and> (exact (parseInt (or_default (num options) (ascii ''10'')))
               \<longrightarrow> numResults (request_of c)
                   = Some (parseInt (or_default (num options) (ascii ''10'')))))
     \<and> calls (similar_action env exa q options) = [similar_call q options]
     \<and> calls (papers_action env exa q options) = [papers_call q options]
     \<and> (exact (parseInt (or_default (num options) (ascii ''10'')))
        \<longrightarrow> numResults (request_of (similar_call q options))
              = Some (parseInt (or_default (num options) (ascii ''10'')))
            \<and> numResults (request_of (papers_call q options))
              = Some (parseInt (or_default (num options) (ascii ''10''))))
     \<and> (n \<le> 2 ^ 53
        \<longrightarrow> parseInt (or_default (Some (decimal n)) d) = Num (int n)
            \<and> parseInt (or_default (Some (0x2D # decimal n)) d) = Num (- int n))
     \<and> (\<not> is_white x \<and> x \<noteq> 0x2B \<and> x \<noteq> 0x2D \<and> \<not> radix_digit 10 x
        \<longrightarrow> parseInt (or_default (Some (x # xs)) d) = NaN)
     \<and> (given (days options) \<and> parseInt (the (days options)) = NaN
        \<longrightarrow> search_call env q options = Inl RangeError
            \<and> research_call env q options = Inl RangeError)
     \<and> (parseInt (or_default (days options) (ascii ''7'')) = NaN
        \<longrightarrow> news_call env q options = Inl RangeError)"
proof (intro conjI impI)
  show "(\<exists>e. search_call env q options = Inl e)
      = (given (days options) \<and> (\<exists>e. date_floor env (the (days options)) = Inl e))"
    by (rule search_call_fails)
  show "(\<exists>e. research_call env q options = Inl e)
      = (given (days options) \<and> (\<exists>e. date_floor env (the (days options)) = Inl e))"
    by (rule research_call_fails)
  show "(\<exists>e. news_call env q options = Inl e)
      = (\<exists>e. date_floor env (or_default (days options) (ascii ''7'')) = Inl e)"
    by (rule news_call_fails)
  show "calls (similar_action env exa q options) = [similar_call q options]"
    using assms by (simp add: similar_action_def attempt_calls)
  show "calls (papers_action env exa q options) = [papers_call q options]"
    using assms by (simp add: papers_action_def attempt_calls)
  show "numResults (request_of (similar_call q options))
        = Some (parseInt (or_default (num options) (ascii ''10'')))"
    by (simp add: similar_call_def no_options_def)
  show "numResults (request_of (papers_call q options))
        = Some (parseInt (or_default (num options) (ascii ''10'')))"
    by (simp add: papers_call_def no_options_def)
  show "parseInt (or_default (Some (decimal n)) d) = Num (int n)"
    by (simp add: or_default_Some decimal_nonempty parseInt_decimal)
  show "parseInt (or_default (Some (0x2D # decimal n)) d) = Num (- int n)"
    by (simp add: or_default_Some parseInt_negative)
next
  assume c: "search_call env q options = Inr c"
  then show "calls (search_action env exa q options) = [c]"
    using assms by (simp add: search_action_def attempt_calls)
  from c show "numResults (request_of c) = Some (parseInt (or_default (num options) (ascii ''10'')))"
    by (auto simp add: search_call_def search_options_def bind_eq_Inr no_options_def
        split: if_splits)
next
  assume c: "research_call env q options = Inr c"
  then show "calls (research_action env exa q options) = [c]"
    using assms by (simp add: research_action_def attempt_calls)
  from c show "numResults (request_of c) = Some (parseInt (or_default (num options) (ascii ''5'')))"
    by (auto simp add: research_call_def bind_eq_Inr no_options_def split: if_splits)
next
  assume c: "news_call env q options = Inr c"
  then show "calls (news_action env exa q options) = [c]"
    using assms by (simp add: news_action_def attempt_calls)
  from c show "numResults (request_of c) = Some (parseInt (or_default (num options) (ascii ''10'')))"
    by (auto simp add: news_call_def Let_def bind_eq_Inr no_options_def)
next
  assume "\<not> is_white x \<and> x \<noteq> 0x2B \<and> x \<noteq> 0x2D \<and> \<not> radix_digit 10 x"
  then show "parseInt (or_default (Some (x # xs)) d) = NaN"
    by (simp add: or_default_Some parseInt_no_digit)
next
  assume a: "given (days options) \<and> parseInt (the (days options)) = NaN"
  then show "search_call env q options = Inl RangeError"
    by (simp add: search_call_def search_options_def date_floor_NaN)
  from a show "research_call env q options = Inl RangeError"
    by (simp add: research_call_def date_floor_NaN)
next
  assume "parseInt (or_default (days options) (ascii ''7'')) = NaN"
  then have "date_floor env (or_default (days options) (ascii ''7'')) = Inl RangeError"
    by (rule date_floor_NaN)
  then show "news_call env q options = Inl RangeError"
    by (simp add: news_call_def Let_def date_floor_def)
qed

theorem num_parsed_not_validated_witness:
  "has_key host_en_US
   \<and> search_call host_en_US (ascii ''q'') (search_defaults (no_flags\<lparr>num := Some (ascii ''0'')\<rparr>))
     = Inr (Search (ascii ''q'')
         (no_options\<lparr>numResults := Some (Num 0), req_type := Some (ascii ''auto'')\<rparr>))
   \<and> calls (search_action host_en_US finds_nothing (ascii ''q'')
        (search_defaults (no_flags\<lparr>num := Some (ascii ''0'')\<rparr>)))
     = [Search (ascii ''q'')
         (no_options\<lparr>numResults := Some (Num 0), req_type := Some (ascii ''auto'')\<rparr>)]
   \<and> research_call host_en_US (ascii ''q'')
        (research_defaults (no_flags\<lparr>num := Some (ascii ''-5'')\<rparr>))
     = Inr (SearchAndContents (ascii ''q'')
         (no_options\<lparr>numResults := Some (Num (- 5)), req_type := Some (ascii ''neural''),
            req_text := True, req_summary := True\<rparr>))
   \<and> calls (research_action host_en_US finds_nothing (ascii ''q'')
        (research_defaults (no_flags\<lparr>num := Some (ascii ''-5'')\<rparr>)))
     = [SearchAndContents (ascii ''q'')
         (no_options\<lparr>numResults := Some (Num (- 5)), req_type := Some (ascii ''neural''),
            req_text := True, req_summary := True\<rparr>)]
   \<and> news_call host_en_US (ascii ''q'') (news_defaults (no_flags\<lparr>num := Some (ascii ''abc'')\<rparr>))
     = Inr (SearchAndContents (ascii ''q'')
         (no_options\<lparr>numResults := Some NaN, req_type := Some (ascii ''neural''),
            startPublishedDate := Some (ascii ''2023-12-27T10:20:30.000Z''),
            req_summary := True\<rparr>))
   \<and> calls (news_action host_en_US finds_nothing (ascii ''q'')
        (news_defaults (no_flags\<lparr>num := Some (ascii ''abc'')\<rparr>)))
     = [SearchAndContents (ascii ''q'')
         (no_options\<lparr>numResults := Some NaN, req_type := Some (ascii ''neural''),
            startPublishedDate := Some (ascii ''2023-12-27T10:20:30.000Z''),
            req_summary := True\<rparr>)]
   \<and> exact (parseInt (or_default (num (search_defaults (no_flags\<lparr>num := Some (ascii ''0'')\<rparr>)))
        (ascii ''10'')))
   \<and> exact (parseInt (or_default
        (num (research_defaults (no_flags\<lparr>num := Some (ascii ''-5'')\<rparr>))) (ascii ''5'')))
   \<and> exact (parseInt (or_default (num (news_defaults (no_flags\<lparr>num := Some (ascii ''abc'')\<rparr>)))
        (ascii ''10'')))
   \<and> Some (Num 0)
     = Some (parseInt (or_default (num (search_defaults (no_flags\<lparr>num := Some (ascii ''0'')\<rparr>)))
         (ascii ''10'')))
   \<and> Some (Num (- 5))
     = Some (parseInt (or_default
         (num (research_defaults (no_flags\<lparr>num := Some (ascii ''-5'')\<rparr>))) (ascii ''5'')))
   \<and> Some NaN
     = Some (parseInt (or_default (num (news_defaults (no_flags\<lparr>num := Some (ascii ''abc'')\<rparr>)))
         (ascii ''10'')))
   \<and> (25 :: nat) \<le> 2 ^ 53
   \<and> parseInt (or_default (Some (decimal 25)) (ascii ''10'')) = Num 25
   \<and> parseInt (or_default (Some (0x2D # decimal 25)) (ascii ''10'')) = Num (- 25)
   \<and> \<not> is_white 0x61 \<and> \<not> radix_digit 10 0x61
   \<and> parseInt (or_default (Some (0x61 # ascii ''bc'')) (ascii ''10'')) = NaN
   \<and> given (days (no_flags\<lparr>days := Some (ascii ''soon'')\<rparr>))
   \<and> parseInt (the (days (no_flags\<lparr>days := Some (ascii ''soon'')\<rparr>))) = NaN
   \<and> search_call host_en_US (ascii ''q'') (no_flags\<lparr>days := Some (ascii ''soon'')\<rparr>)
     = Inl RangeError
   \<and> research_call host_en_US (ascii ''q'') (no_flags\<lparr>days := Some (ascii ''soon'')\<rparr>)
     = Inl RangeError
   \<and> news_call host_en_US (ascii ''q'') (no_flags\<lparr>days := Some (ascii ''soon'')\<rparr>)
     = Inl RangeError"
proof -
  let ?zero = "search_defaults (no_flags\<lparr>num := Some (ascii ''0'')\<rparr>)"
  let ?c1 = "Search (ascii ''q'')
      (no_options\<lparr>numResults := Some (Num 0), req_type := Some (ascii ''auto'')\<rparr>)"
  let ?minus = "research_defaults (no_flags\<lparr>num := Some (ascii ''-5'')\<rparr>)"
  let ?c2 = "SearchAndContents (ascii ''q'')
      (no_options\<lparr>numResults := Some (Num (- 5)), req_type := Some (ascii ''neural''),
         req_text := True, req_summary := True\<rparr>)"
  let ?abc = "news_defaults (no_flags\<lparr>num := Some (ascii ''abc'')\<rparr>)"
  let ?c3 = "SearchAndContents (ascii ''q'')
      (no_options\<lparr>numResults := Some NaN, req_type := Some (ascii ''neural''),
         startPublishedDate := Some (ascii ''2023-12-27T10:20:30.000Z''),
         req_summary := True\<rparr>)"
  let ?late = "no_flags\<lparr>days := Some (ascii ''soon'')\<rparr>"
  have k: "has_key host_en_US" by code_simp
  have b1: "search_call host_en_US (ascii ''q'') ?zero = Inr ?c1" by code_simp
  have b2: "research_call host_en_US (ascii ''q'') ?minus = Inr ?c2" by code_simp
  have b3: "news_call host_en_US (ascii ''q'') ?abc = Inr ?c3" by code_simp
  have e1: "exact (parseInt (or_default (num ?zero) (ascii ''10'')))" by code_simp
  have e2: "exact (parseInt (or_default (num ?minus) (ascii ''5'')))" by code_simp
  have e3: "exact (parseInt (or_default (num ?abc) (ascii ''10'')))" by code_simp
  have 2: "(25 :: nat) \<le> 2 ^ 53" by simp
  have 3: "\<not> is_white 0x61 \<and> 0x61 \<noteq> (0x2B :: 16 word) \<and> 0x61 \<noteq> (0x2D :: 16 word)
      \<and> \<not> radix_digit 10 0x61"
    by code_simp
  have 4: "given (days ?late) \<and> parseInt (the (days ?late)) = NaN"
    by code_simp
  have 5: "parseInt (or_default (days ?late) (ascii ''7'')) = NaN"
    by code_simp
  note t = num_parsed_not_validated [OF k]
  have s: "calls (search_action host_en_US finds_nothing (ascii ''q'') ?zero) = [?c1]
      \<and> numResults (request_of ?c1) = Some (parseInt (or_default (num ?zero) (ascii ''10'')))"
    using b1 e1 t [where q = "ascii ''q''" and options = ?zero and c = ?c1
        and exa = finds_nothing]
    by blast
  have r: "calls (research_action host_en_US finds_nothing (ascii ''q'') ?minus) = [?c2]
      \<and> numResults (request_of ?c2) = Some (parseInt (or_default (num ?minus) (ascii ''5'')))"
    using b2 e2 t [where q = "ascii ''q''" and options = ?minus and c = ?c2
        and exa = finds_nothing]
    by blast
  have n: "calls (news_action host_en_US finds_nothing (ascii ''q'') ?abc) = [?c3]
      \<and> numResults (request_of ?c3) = Some (parseInt (or_default (num ?abc) (ascii ''10'')))"
    using b3 e3 t [where q = "ascii ''q''" and options = ?abc and c = ?c3
        and exa = finds_nothing]
    by blast
  have p: "parseInt (or_default (Some (decimal 25)) (ascii ''10'')) = Num 25
      \<and> parseInt (or_default (Some (0x2D # decimal 25)) (ascii ''10'')) = Num (- 25)
      \<and> parseInt (or_default (Some (0x61 # ascii ''bc'')) (ascii ''10'')) = NaN"
    using 2 3 t [where n = 25 and d = "ascii ''10''" and x = "0x61" and xs = "ascii ''bc''"]
    by simp
  have f: "search_call host_en_US (ascii ''q'') ?late = Inl RangeError
      \<and> research_call host_en_US (ascii ''q'') ?late = Inl RangeError
      \<and> news_call host_en_US (ascii ''q'') ?late = Inl RangeError"
    using 4 5 t [where q = "ascii ''q''" and options = ?late]
    by blast
  have v: "numResults (request_of ?c1) = Some (Num 0)"
    "numResults (request_of ?c2) = Some (Num (- 5))" "numResults (request_of ?c3) = Some NaN"
    by (simp_all add: no_options_def)
  from k b1 s b2 r b3 n e1 e2 e3 2 p 3 4 f show ?thesis
    unfolding v by blast
qed

text \<open>
  Claim C2, as stated, fails for \<open>research\<close>, \<open>news\<close> and \<open>papers\<close>: they log a
  progress banner to standard output before the call, so when the call fails the
  output holds the banner besides the diagnostic on the error stream.
\<close>

theorem banner_before_failure_counterexample:
  "research_action host_en_US rejects (ascii ''q'') (research_defaults no_flags)
   = \<lparr>stdout = [research_banner (ascii ''q'')],
      stderr = [[0x274C] @ ascii '' Error: Request failed with status code 401''],
      calls = [SearchAndContents (ascii ''q'')
                 (no_options\<lparr>numResults := Some (Num 5), req_type := Some (ascii ''neural''),
                             req_text := True, req_summary := True\<rparr>)],
      exit_code = 1\<rparr>
   \<and> stdout (research_action host_en_US rejects (ascii ''q'') (research_defaults no_flags)) \<noteq> []"
  by code_simp

lemma attempt_rejected:
  "exa c = Inl m \<Longrightarrow> attempt env exa printed (Inr c) fmt
     = \<lparr>stdout = printed, stderr = [[0x274C] @ ascii '' Error: '' @ m], calls = [c],
        exit_code = 1\<rparr>"
  by (simp add: attempt_def caught_def message_def)

text \<open>
  Claim C2, amended. When the external call of an invocation fails, no part of a
  formatted result set is printed: the error stream holds exactly the one
  diagnostic, the exit code is 1, and standard output holds nothing for \<open>search\<close>,
  \<open>similar\<close> and \<open>contents\<close> and exactly the progress banner, printed before the
  call, for \<open>research\<close>, \<open>news\<close> and \<open>papers\<close>.
\<close>

theorem failed_call_output:
  assumes "has_key env" and "exa c = Inl m"
  shows "(search_call env q options = Inr c
            \<longrightarrow> search_action env exa q options
                = \<lparr>stdout = [], stderr = [[0x274C] @ ascii '' Error: '' @ m], calls = [c],
                   exit_code = 1\<rparr>)
       \<and> (similar_call q options = c
            \<longrightarrow> similar_action env exa q options
                = \<lparr>stdout = [], stderr = [[0x274C] @ ascii '' Error: '' @ m], calls = [c],
                   exit_code = 1\<rparr>)
       \<and> (contents_call urls options = c
            \<longrightarrow> contents_action env exa urls options
                = \<lparr>stdout = [], stderr = [[0x274C] @ ascii '' Error: '' @ m], calls = [c],
                   exit_code = 1\<rparr>)
       \<and> (research_call env q options = Inr c
            \<longrightarrow> research_action env exa q options
                = \<lparr>stdout = [research_banner q],
                   stderr = [[0x274C] @ ascii '' Error: '' @ m], calls = [c], exit_code = 1\<rparr>)
       \<and> (news_call env q options = Inr c
            \<longrightarrow> news_action env exa q options
                = \<lparr>stdout = [news_banner q],
                   stderr = [[0x274C] @ ascii '' Error: '' @ m], calls = [c], exit_code = 1\<rparr>)
       \<and> (papers_call q options = c
            \<longrightarrow> papers_action env exa q options
                = \<lparr>stdout = [papers_banner q],
                   stderr = [[0x274C] @ ascii '' Error: '' @ m], calls = [c], exit_code = 1\<rparr>)"
  using assms
  by (simp add: search_action_def similar_action_def contents_action_def research_action_def
      news_action_def papers_action_def attempt_rejected)


theorem failed_call_output_witness:
  "has_key host_en_US
   \<and> rejects (SearchAndContents (ascii ''q'')
        (no_options\<lparr>numResults := Some (Num 10), req_type := Some (ascii ''neural''),
                    includeDomains := Some academic_domains, req_summary := True\<rparr>))
      = Inl (ascii ''Request failed with status code 401'')
   \<and> papers_call (ascii ''q'') (papers_defaults no_flags)
      = SearchAndContents (ascii ''q'')
        (no_options\<lparr>numResults := Some (Num 10), req_type := Some (ascii ''neural''),
                    includeDomains := Some academic_domains, req_summary := True\<rparr>)
   \<and> papers_action host_en_US rejects (ascii ''q'') (papers_defaults no_flags)
      = \<lparr>stdout = [papers_banner (ascii ''q'')],
         stderr = [[0x274C] @ ascii '' Error: '' @ ascii ''Request failed with status code 401''],
         calls = [SearchAndContents (ascii ''q'')
           (no_options\<lparr>numResults := Some (Num 10), req_type := Some (ascii ''neural''),
                    includeDomains := Some academic_domains, req_summary := True\<rparr>)],
         exit_code = 1\<rparr>"
proof -
  have k: "has_key host_en_US" by code_simp
  have r: "rejects (SearchAndContents (ascii ''q'')
        (no_options\<lparr>numResults := Some (Num 10), req_type := Some (ascii ''neural''),
                    includeDomains := Some academic_domains, req_summary := True\<rparr>))
      = Inl (ascii ''Request failed with status code 401'')"
    by (simp add: rejects_def)
  have p: "papers_call (ascii ''q'') (papers_defaults no_flags)
      = SearchAndContents (ascii ''q'')
        (no_options\<lparr>numResults := Some (Num 10), req_type := Some (ascii ''neural''),
                    includeDomains := Some academic_domains, req_summary := True\<rparr>)"
    by code_simp
  show ?thesis
    using k r p
      failed_call_output [where env = host_en_US and exa = rejects and q = "ascii ''q''"
          and options = "papers_defaults no_flags"
          and m = "ascii ''Request failed with status code 401''"
          and c = "SearchAndContents (ascii ''q'')
            (no_options\<lparr>numResults := Some (Num 10), req_type := Some (ascii ''neural''),
                    includeDomains := Some academic_domains, req_summary := True\<rparr>)"]
    by simp
qed

text \<open>
  Claim C5, as stated, fails on the result count: the claim fixes it at 10 for every
  invocation without a days flag, and \<open>news "topic X" -n 3\<close> builds a request for 3.
\<close>

theorem news_num_flag_counterexample:
  "days (no_flags\<lparr>num := Some (ascii ''3'')\<rparr>) = None
   \<and> news_call host_en_US (ascii ''topic X'') (news_defaults (no_flags\<lparr>num := Some (ascii ''3'')\<rparr>))
       = Inr (SearchAndContents (ascii ''topic X'')
             \<lparr>numResults = Some (Num 3), req_type = Some (ascii ''neural''),
              startPublishedDate = Some (ascii ''2023-12-27T10:20:30.000Z''),
              includeDomains = None, req_text = False, req_summary = True\<rparr>)"
  by code_simp

lemma parseInt_7: "parseInt (ascii ''7'') = Num 7"
  by code_simp

lemma parseInt_10: "parseInt (ascii ''10'') = Num 10"
  by code_simp

text \<open>
  Claim C5, amended. For every invocation of \<open>news\<close> with no days flag and no num
  flag, the built request has the date floor of now minus 7 days (the date after
  \<open>setDate(getDate() - 7)\<close>, in ISO format), the mode \<open>neural\<close>, the summary
  switched on and the result count 10, and nothing else. The floor is computed for
  \<open>news\<close> although no days flag is given, unlike \<open>search\<close>: the request \<open>search\<close>
  builds from the same flags has no date floor.
\<close>

theorem news_default_request:
  assumes "days flags = None" and "num flags = None"
      and "setDate env (now env) (getDate env (now env) - 7) = Num t"
  shows "news_call env topic (news_defaults flags)
         = Inr (SearchAndContents topic
             \<lparr>numResults = Some (Num 10), req_type = Some (ascii ''neural''),
              startPublishedDate = Some (toISOString env t), includeDomains = None,
              req_text = False, req_summary = True\<rparr>)
       \<and> (\<exists>c. search_call env topic (search_defaults flags) = Inr c
              \<and> startPublishedDate (request_of c) = None
              \<and> numResults (request_of c) = Some (Num 10))"
proof -
  have d: "or_default (days (news_defaults flags)) (ascii ''7'') = ascii ''7''"
    using assms(1) by (simp add: news_defaults_def dflt_def or_default_def ascii_def)
  have n: "or_default (num (news_defaults flags)) (ascii ''10'') = ascii ''10''"
    using assms(2) by (simp add: news_defaults_def dflt_def or_default_def ascii_def)
  have "days_ago env (ascii ''7'') = Num t"
    using assms(3)
    by (simp add: days_ago_def parseInt_7 Date_setDate_def Date_getDate_def minus_number_def)
  then have news: "news_call env topic (news_defaults flags)
      = Inr (SearchAndContents topic
          \<lparr>numResults = Some (Num 10), req_type = Some (ascii ''neural''),
           startPublishedDate = Some (toISOString env t), includeDomains = None,
           req_text = False, req_summary = True\<rparr>)"
    by (simp add: news_call_def d n parseInt_10 Date_toISOString_def no_options_def)
  have g: "\<not> given (days (search_defaults flags))"
    using assms(1) by (simp add: search_defaults_def given_def)
  have m: "or_default (num (search_defaults flags)) (ascii ''10'') = ascii ''10''"
    using assms(2) by (simp add: search_defaults_def dflt_def or_default_def ascii_def)
  have search: "\<exists>c. search_call env topic (search_defaults flags) = Inr c
      \<and> startPublishedDate (request_of c) = None
      \<and> numResults (request_of c) = Some (Num 10)"
    by (simp add: search_call_def search_options_def g m parseInt_10 no_options_def)
  from news search show ?thesis by blast
qed

theorem news_default_request_witness:
  "days no_flags = None \<and> num no_flags = None
   \<and> setDate host_en_US (now host_en_US) (getDate host_en_US (now host_en_US) - 7)
       = Num 1703672430000
   \<and> toISOString host_en_US 1703672430000 = ascii ''2023-12-27T10:20:30.000Z''
   \<and> news_call host_en_US (ascii ''topic X'') (news_defaults no_flags)
       = Inr (SearchAndContents (ascii ''topic X'')
             \<lparr>numResults = Some (Num 10), req_type = Some (ascii ''neural''),
              startPublishedDate = Some (ascii ''2023-12-27T10:20:30.000Z''),
              includeDomains = None, req_text = False, req_summary = True\<rparr>)
   \<and> search_call host_en_US (ascii ''topic X'') (search_defaults no_flags)
       = Inr (Search (ascii ''topic X'')
             \<lparr>numResults = Some (Num 10), req_type = Some (ascii ''auto''),
              startPublishedDate = None, includeDomains = None, req_text = False,
              req_summary = False\<rparr>)
   \<and> (\<exists>c. search_call host_en_US (ascii ''topic X'') (search_defaults no_flags) = Inr c
          \<and> startPublishedDate (request_of c) = None
          \<and> numResults (request_of c) = Some (Num 10))"
proof -
  have 1: "days no_flags = None" "num no_flags = None" by (simp_all add: no_flags_def)
  have 2: "setDate host_en_US (now host_en_US) (getDate host_en_US (now host_en_US) - 7)
       = Num 1703672430000" by code_simp
  have 3: "toISOString host_en_US 1703672430000 = ascii ''2023-12-27T10:20:30.000Z''"
    by code_simp
  have 4: "search_call host_en_US (ascii ''topic X'') (search_defaults no_flags)
       = Inr (Search (ascii ''topic X'')
             \<lparr>numResults = Some (Num 10), req_type = Some (ascii ''auto''),
              startPublishedDate = None, includeDomains = None, req_text = False,
              req_summary = False\<rparr>)"
    by code_simp
  show ?thesis
    using 1 2 3 4 news_default_request [OF 1 2, of "ascii ''topic X''"] by simp
qed

text \<open>
  Claim C6. Whatever the options, the call \<open>papers\<close> builds is a search with
  contents whose domain filter is the list of the five academic domains, in this
  order, whose mode is \<open>neural\<close> and whose summary is switched on; and it is the one
  call a run with a credential issues.
\<close>

theorem papers_domain_filter:
  "papers_call topic options
     = SearchAndContents topic (request_of (papers_call topic options))
   \<and> includeDomains (request_of (papers_call topic options))
     = Some [ascii ''arxiv.org'', ascii ''scholar.google.com'', ascii ''semanticscholar.org'',
             ascii ''papers.ssrn.com'', ascii ''researchgate.net'']
   \<and> req_type (request_of (papers_call topic options)) = Some (ascii ''neural'')
   \<and> req_summary (request_of (papers_call topic options)) = True
   \<and> calls (papers_action env exa topic options)
     = (if has_key env then [papers_call topic options] else [])"
  by (simp add: papers_call_def academic_domains_def papers_action_def attempt_def no_key_def
      caught_def no_options_def split: sum.splits)


text \<open>
  Claim C7. A run of \<open>contents\<close> issues exactly one call, for the whole list of
  URLs in the order given, with the text switched on and the summary as the flag
  says; the credential is what lets an action build a request at all.
\<close>

theorem contents_single_call:
  assumes "has_key env"
  shows "calls (contents_action env exa urls options)
         = [GetContents urls
              \<lparr>numResults = None, req_type = None, startPublishedDate = None,
               includeDomains = None, req_text = True, req_summary = summary options\<rparr>]"
  using assms
  by (simp add: contents_action_def contents_call_def attempt_def caught_def no_options_def
      split: sum.splits)


theorem contents_single_call_witness:
  "has_key host_en_US
   \<and> calls (contents_action host_en_US finds_nothing [ascii ''urlA'', ascii ''urlB'']
        (contents_defaults (no_flags\<lparr>summary := True\<rparr>)))
      = [GetContents [ascii ''urlA'', ascii ''urlB'']
              \<lparr>numResults = None, req_type = None, startPublishedDate = None,
               includeDomains = None, req_text = True, req_summary = True\<rparr>]"
proof -
  have k: "has_key host_en_US" by code_simp
  show ?thesis
    using k contents_single_call [OF k, of finds_nothing "[ascii ''urlA'', ascii ''urlB'']"
        "contents_defaults (no_flags\<lparr>summary := True\<rparr>)"]
    by (simp add: contents_defaults_def no_flags_def)
qed


section \<open>The round trip of the JSON output\<close>

lemma skip_ws_Cons: "\<not> is_ws c \<Longrightarrow> skip_ws (c # cs) = c # cs"
  by (simp add: skip_ws_def)

lemma skip_ws_append: "list_all is_ws ws \<Longrightarrow> skip_ws (ws @ s) = skip_ws s"
  by (induction ws) (simp_all add: skip_ws_def)

lemma is_ws_LF [simp]: "is_ws LF"
  by (simp add: is_ws_def LF_def)

lemma is_ws_SP [simp]: "is_ws SP"
  by (simp add: is_ws_def SP_def)













lemma number_start:
  assumes "number_len r = Some (length r)"
  obtains c cs where "r = c # cs" and "c = 0x2D \<or> is_digit c"
proof (cases r)
  case Nil
  with assms show ?thesis by (simp add: number_len_def sign_len_def int_len_def)
next
  case (Cons c cs)
  with assms have "c = 0x2D \<or> is_digit c"
    by (auto simp add: number_len_def sign_len_def int_len_def is_digit_def Let_def
        split: if_splits option.splits)
  with Cons show ?thesis by (rule that)
qed

















lemma quote_Cons: "quote s = 0x22 # tl (quote s)"
  by (simp add: quote_def)











lemma is_ws_gap: "list_all is_ws ind \<Longrightarrow> list_all is_ws (ind @ gap)"
  by (simp add: gap_def)

lemma serialize_start:
  assumes "js_value canon j"
  shows "\<exists>c cs. serialize ind j = c # cs \<and> value_start c"
proof (cases j)
  case JNull
  then show ?thesis by (simp add: ascii_def value_start_def is_ws_def)
next
  case (JBool b)
  then show ?thesis by (simp add: ascii_def value_start_def is_ws_def)
next
  case (JNum r)
  with assms have "number_len r = Some (length r)" by simp
  then obtain c cs where "r = c # cs" "c = 0x2D \<or> is_digit c" by (rule number_start)
  with JNum show ?thesis
    by (auto simp add: value_start_def is_ws_def is_digit_def)
next
  case (JStr s)
  then show ?thesis
    by (simp add: quote_def value_start_def is_ws_def)
next
  case (JArr xs)
  then show ?thesis
    by (simp add: ascii_def value_start_def is_ws_def)
next
  case (JObj kvs)
  then show ?thesis
    by (simp add: ascii_def value_start_def is_ws_def)
qed

lemma skip_ws_value:
  assumes "js_value canon j" and "list_all is_ws ws"
  shows "\<exists>c cs. skip_ws (ws @ serialize ind j @ rest) = c # cs @ rest
            \<and> serialize ind j = c # cs \<and> value_start c"
proof -
  from serialize_start [OF assms(1)] obtain c cs
    where s: "serialize ind j = c # cs" and v: "value_start c" by blast
  have "skip_ws (ws @ serialize ind j @ rest) = skip_ws (serialize ind j @ rest)"
    by (rule skip_ws_append [OF assms(2)])
  also have "\<dots> = c # cs @ rest"
    using v by (simp add: s skip_ws_Cons value_start_def)
  finally show ?thesis using s v by blast
qed




















end
